theory Spec2Isabelle
  imports Main "HOL-Library.Sublist"
begin

section \<open>Python values and exceptions\<close>

text \<open>
  A Python float is kept as the dyadic number \<open>m * 2 ^ e\<close> it denotes, or as one of the
  non-finite values. The wrapper never computes with floats: it stores them, tests them
  against zero and hands them to the external tools.
\<close>

datatype pyfloat = PyFloat int int | PyInf bool | PyNaN

text \<open>
  The values \<open>json.loads\<close> produces. A dict is an association list read with
  \<open>map_of\<close>; the dataclasses of \<open>types.py\<close> do not check the annotated types
  of their fields, so a field filled from a document holds any such value.
\<close>

datatype json =
    JNull
  | JBool bool
  | JInt int
  | JFloat pyfloat
  | JStr string
  | JArr "json list"
  | JObj "(string \<times> json) list"

text \<open>
  The exception classes of \<open>types.py\<close> (all subclasses of \<open>MacosUseSDKError\<close>),
  the built-in exceptions the wrapper's own statements can raise, and one constructor for
  whatever else the platform raises. Each carries the text \<open>str(e)\<close> gives.
\<close>

datatype py_exception =
    MacosUseSDKError string
  | AccessibilityError string
  | AppNotFoundError string
  | InputSimulationError string
  | FileSearchError string
  | OutputControllerError string
  | AttributeError string
  | TypeError string
  | ValueError string
  | KeyError string
  | OtherException string

fun str_exception :: "py_exception \<Rightarrow> string" where
  "str_exception (MacosUseSDKError m) = m"
| "str_exception (AccessibilityError m) = m"
| "str_exception (AppNotFoundError m) = m"
| "str_exception (InputSimulationError m) = m"
| "str_exception (FileSearchError m) = m"
| "str_exception (OutputControllerError m) = m"
| "str_exception (AttributeError m) = m"
| "str_exception (TypeError m) = m"
| "str_exception (ValueError m) = m"
| "str_exception (KeyError m) = m"
| "str_exception (OtherException m) = m"

text \<open>What \<open>except MacosUseSDKError\<close> catches: the base class and its subclasses.\<close>

fun is_MacosUseSDKError :: "py_exception \<Rightarrow> bool" where
  "is_MacosUseSDKError (MacosUseSDKError m) = True"
| "is_MacosUseSDKError (AccessibilityError m) = True"
| "is_MacosUseSDKError (AppNotFoundError m) = True"
| "is_MacosUseSDKError (InputSimulationError m) = True"
| "is_MacosUseSDKError (FileSearchError m) = True"
| "is_MacosUseSDKError (OutputControllerError m) = True"
| "is_MacosUseSDKError e = False"

fun type_name :: "json \<Rightarrow> string" where
  "type_name JNull = ''NoneType''"
| "type_name (JBool b) = ''bool''"
| "type_name (JInt i) = ''int''"
| "type_name (JFloat f) = ''float''"
| "type_name (JStr s) = ''str''"
| "type_name (JArr xs) = ''list''"
| "type_name (JObj d) = ''dict''"

text \<open>Truth value of a Python object in a condition.\<close>

fun truthy :: "json \<Rightarrow> bool" where
  "truthy JNull = False"
| "truthy (JBool b) = b"
| "truthy (JInt i) = (i \<noteq> 0)"
| "truthy (JFloat (PyFloat m e)) = (m \<noteq> 0)"
| "truthy (JFloat (PyInf s)) = True"
| "truthy (JFloat PyNaN) = True"
| "truthy (JStr s) = (s \<noteq> [])"
| "truthy (JArr xs) = (xs \<noteq> [])"
| "truthy (JObj d) = (d \<noteq> [])"

text \<open>\<open>d.get(k, default)\<close> on a dict.\<close>

definition dict_get :: "(string \<times> json) list \<Rightarrow> string \<Rightarrow> json \<Rightarrow> json" where
  "dict_get d k dflt = (case map_of d k of Some v \<Rightarrow> v | None \<Rightarrow> dflt)"

text \<open>
  \<open>v.get(k, default)\<close> on any value: only a dict has the method, every other value
  raises \<open>AttributeError\<close>.
\<close>

definition no_attribute :: "string \<Rightarrow> string \<Rightarrow> py_exception" where
  "no_attribute ty attr =
     AttributeError ([CHR 0x27] @ ty @ [CHR 0x27] @ '' object has no attribute ''
                     @ [CHR 0x27] @ attr @ [CHR 0x27])"

fun py_get :: "json \<Rightarrow> string \<Rightarrow> json \<Rightarrow> py_exception + json" where
  "py_get (JObj d) k dflt = Inr (dict_get d k dflt)"
| "py_get v k dflt = Inl (no_attribute (type_name v) ''get'')"

text \<open>
  The items a \<open>for\<close> loop draws from a value: the items of a list, the keys of a dict,
  the characters of a string; anything else raises \<open>TypeError\<close>.
\<close>

fun py_iter :: "json \<Rightarrow> py_exception + json list" where
  "py_iter (JArr xs) = Inr xs"
| "py_iter (JObj d) = Inr (map (\<lambda>kv. JStr (fst kv)) d)"
| "py_iter (JStr s) = Inr (map (\<lambda>c. JStr [c]) s)"
| "py_iter v = Inl (TypeError ([CHR 0x27] @ type_name v @ [CHR 0x27] @ '' object is not iterable''))"

text \<open>Sequencing of statements that may raise: the first exception ends the block.\<close>

definition and_then :: "py_exception + 'a \<Rightarrow> ('a \<Rightarrow> py_exception + 'b) \<Rightarrow> py_exception + 'b" where
  "and_then m f = (case m of Inl e \<Rightarrow> Inl e | Inr v \<Rightarrow> f v)"

fun for_each :: "('a \<Rightarrow> py_exception + 'b) \<Rightarrow> 'a list \<Rightarrow> py_exception + 'b list" where
  "for_each f [] = Inr []"
| "for_each f (v # vs) =
     and_then (f v) (\<lambda>r. and_then (for_each f vs) (\<lambda>rs. Inr (r # rs)))"

section \<open>The dataclasses of \<open>types.py\<close>\<close>

record ElementData =
  role :: json
  "text" :: json
  x :: json
  y :: json
  width :: json
  height :: json

record BrowserElementData =
  tag_name :: json
  id_ :: json
  class_name :: json
  "text" :: json
  "value" :: json
  placeholder :: json
  aria_label :: json
  role :: json
  href :: json
  src :: json
  x :: json
  y :: json
  width :: json
  height :: json

record BrowserPageData =
  url :: json
  title :: json
  elements :: "BrowserElementData list"

record Statistics =
  count :: json
  excluded_count :: json
  excluded_non_interactable :: json
  excluded_no_text :: json
  with_text_count :: json
  without_text_count :: json
  visible_elements_count :: json
  role_counts :: json
  browser_elements_count :: json

text \<open>\<open>Statistics()\<close>: every count at its default 0, no role counts.\<close>

definition Statistics_init :: Statistics where
  "Statistics_init =
     \<lparr>count = JInt 0, excluded_count = JInt 0, excluded_non_interactable = JInt 0,
      excluded_no_text = JInt 0, with_text_count = JInt 0, without_text_count = JInt 0,
      visible_elements_count = JInt 0, role_counts = JObj [],
      browser_elements_count = JInt 0\<rparr>"

record ResponseData =
  app_name :: json
  elements :: "ElementData list"
  stats :: Statistics
  processing_time_seconds :: json
  is_browser :: json
  browser_data :: "BrowserPageData option"

record AppOpenerResult =
  pid :: int
  app_name :: string
  processing_time_seconds :: string

record OutputControllerResult =
  "value" :: "pyfloat option"
  message :: string

record AttributeChangeDetail =
  attribute_name :: string
  added_text :: "string option"
  removed_text :: "string option"
  old_value :: "string option"
  new_value :: "string option"

record ElementChange =
  ax_element :: string
  change_type :: string
  changes :: "AttributeChangeDetail list"

record TraversalDiff =
  added_elements :: "ElementData list"
  removed_elements :: "ElementData list"
  modified_elements :: "ElementChange list"
  stats_before :: "Statistics option"
  stats_after :: "Statistics option"

record ActionResult =
  open_result :: "AppOpenerResult option"
  traversal_pid :: "int option"
  traversal_before :: "ResponseData option"
  traversal_after :: "ResponseData option"
  traversal_diff :: "TraversalDiff option"
  primary_action_error :: "string option"
  traversal_before_error :: "string option"
  traversal_after_error :: "string option"

text \<open>\<open>ActionResult()\<close>: every field at its default \<open>None\<close>.\<close>

definition ActionResult_init :: ActionResult where
  "ActionResult_init =
     \<lparr>open_result = None, traversal_pid = None, traversal_before = None,
      traversal_after = None, traversal_diff = None, primary_action_error = None,
      traversal_before_error = None, traversal_after_error = None\<rparr>"

record ActionOptions =
  traverse_before :: bool
  traverse_after :: bool
  show_diff :: bool
  only_visible_elements :: bool
  show_animation :: bool
  animation_duration :: pyfloat
  pid_for_traversal :: "int option"
  delay_after_action :: pyfloat

text \<open>\<open>ActionOptions()\<close>: the declared defaults; 0.8 and 0.2 as the doubles they are.\<close>

definition ActionOptions_init :: ActionOptions where
  "ActionOptions_init =
     \<lparr>traverse_before = False, traverse_after = False, show_diff = False,
      only_visible_elements = False, show_animation = True,
      animation_duration = PyFloat 3602879701896397 (- 52),
      pid_for_traversal = None,
      delay_after_action = PyFloat 3602879701896397 (- 54)\<rparr>"

section \<open>\<open>ActionOptions.validated\<close>\<close>

text \<open>
  The method builds a new object from the receiver's fields and then, when
  \<open>show_diff\<close> is set, assigns \<open>True\<close> to both traversal switches of the new
  object. As a function of the receiver's value:
\<close>

definition validated :: "ActionOptions \<Rightarrow> ActionOptions" where
  "validated self =
     (let options =
            \<lparr>traverse_before = traverse_before self,
             traverse_after = traverse_after self,
             show_diff = show_diff self,
             only_visible_elements = only_visible_elements self,
             show_animation = show_animation self,
             animation_duration = animation_duration self,
             pid_for_traversal = pid_for_traversal self,
             delay_after_action = delay_after_action self\<rparr>
      in if show_diff options
         then options\<lparr>traverse_before := True, traverse_after := True\<rparr>
         else options)"

text \<open>
  The same method on an explicit store of \<open>ActionOptions\<close> objects, so that the
  receiver and the returned object are told apart. An object reference is an index
  into the store; the constructor call allocates at the end, the two assignments
  write to the new object only.
\<close>

type_synonym ref = nat
type_synonym options_store = "ActionOptions list"

definition new_ActionOptions :: "ActionOptions \<Rightarrow> options_store \<Rightarrow> ref \<times> options_store" where
  "new_ActionOptions v h = (length h, h @ [v])"

definition setattr_traverse_before :: "ref \<Rightarrow> bool \<Rightarrow> options_store \<Rightarrow> options_store" where
  "setattr_traverse_before r b h = h[r := (h ! r)\<lparr>traverse_before := b\<rparr>]"

definition setattr_traverse_after :: "ref \<Rightarrow> bool \<Rightarrow> options_store \<Rightarrow> options_store" where
  "setattr_traverse_after r b h = h[r := (h ! r)\<lparr>traverse_after := b\<rparr>]"

definition validated_in_store :: "ref \<Rightarrow> options_store \<Rightarrow> ref \<times> options_store" where
  "validated_in_store self h =
     (let (options, h1) =
            new_ActionOptions
              \<lparr>traverse_before = traverse_before (h ! self),
               traverse_after = traverse_after (h ! self),
               show_diff = show_diff (h ! self),
               only_visible_elements = only_visible_elements (h ! self),
               show_animation = show_animation (h ! self),
               animation_duration = animation_duration (h ! self),
               pid_for_traversal = pid_for_traversal (h ! self),
               delay_after_action = delay_after_action (h ! self)\<rparr> h
      in if show_diff (h1 ! options)
         then (options, setattr_traverse_after options True
                          (setattr_traverse_before options True h1))
         else (options, h1))"

text \<open>
  The first two statements of \<open>perform_action\<close>: a missing \<open>options\<close> argument is
  replaced by \<open>ActionOptions()\<close>, and the rest of the method works on the validated
  copy.
\<close>

definition perform_action_options :: "ActionOptions option \<Rightarrow> ActionOptions" where
  "perform_action_options options =
     validated (case options of None \<Rightarrow> ActionOptions_init | Some opts \<Rightarrow> opts)"

section \<open>\<open>MacosSDK._parse_response_data\<close>\<close>

definition parse_statistics :: "json \<Rightarrow> py_exception + Statistics" where
  "parse_statistics stats_data =
     (case stats_data of
        JObj d \<Rightarrow>
          Inr \<lparr>count = dict_get d ''count'' (JInt 0),
               excluded_count = dict_get d ''excluded_count'' (JInt 0),
               excluded_non_interactable = dict_get d ''excluded_non_interactable'' (JInt 0),
               excluded_no_text = dict_get d ''excluded_no_text'' (JInt 0),
               with_text_count = dict_get d ''with_text_count'' (JInt 0),
               without_text_count = dict_get d ''without_text_count'' (JInt 0),
               visible_elements_count = dict_get d ''visible_elements_count'' (JInt 0),
               role_counts = dict_get d ''role_counts'' (JObj []),
               browser_elements_count = dict_get d ''browser_elements_count'' (JInt 0)\<rparr>
      | v \<Rightarrow> Inl (no_attribute (type_name v) ''get''))"

definition parse_element :: "json \<Rightarrow> py_exception + ElementData" where
  "parse_element elem_data =
     (case elem_data of
        JObj d \<Rightarrow>
          Inr \<lparr>ElementData.role = dict_get d ''role'' (JStr ''''),
               text = dict_get d ''text'' JNull,
               x = dict_get d ''x'' JNull,
               y = dict_get d ''y'' JNull,
               width = dict_get d ''width'' JNull,
               height = dict_get d ''height'' JNull\<rparr>
      | v \<Rightarrow> Inl (no_attribute (type_name v) ''get''))"

definition parse_browser_element :: "json \<Rightarrow> py_exception + BrowserElementData" where
  "parse_browser_element elem =
     (case elem of
        JObj d \<Rightarrow>
          Inr \<lparr>tag_name = dict_get d ''tagName'' (JStr ''''),
               id_ = dict_get d ''id'' JNull,
               class_name = dict_get d ''className'' JNull,
               text = dict_get d ''text'' JNull,
               value = dict_get d ''value'' JNull,
               placeholder = dict_get d ''placeholder'' JNull,
               aria_label = dict_get d ''ariaLabel'' JNull,
               role = dict_get d ''role'' JNull,
               href = dict_get d ''href'' JNull,
               src = dict_get d ''src'' JNull,
               x = dict_get d ''x'' JNull,
               y = dict_get d ''y'' JNull,
               width = dict_get d ''width'' JNull,
               height = dict_get d ''height'' JNull\<rparr>
      | v \<Rightarrow> Inl (no_attribute (type_name v) ''get''))"

definition parse_browser_data :: "json \<Rightarrow> py_exception + BrowserPageData option" where
  "parse_browser_data bd =
     (if truthy bd then
        and_then (py_get bd ''elements'' (JArr [])) (\<lambda>elems.
        and_then (py_iter elems) (\<lambda>items.
        and_then (for_each parse_browser_element items) (\<lambda>browser_elements.
        and_then (py_get bd ''url'' JNull) (\<lambda>u.
        and_then (py_get bd ''title'' JNull) (\<lambda>t.
          Inr (Some \<lparr>url = u, title = t, elements = browser_elements\<rparr>))))))
      else Inr None)"

definition parse_response_data :: "json \<Rightarrow> py_exception + ResponseData" where
  "parse_response_data json_data =
     and_then (py_get json_data ''stats'' (JObj [])) (\<lambda>stats_data.
     and_then (parse_statistics stats_data) (\<lambda>stats.
     and_then (py_get json_data ''elements'' (JArr [])) (\<lambda>elems.
     and_then (py_iter elems) (\<lambda>items.
     and_then (for_each parse_element items) (\<lambda>elements.
     and_then (py_get json_data ''browser_data'' JNull) (\<lambda>bd.
     and_then (parse_browser_data bd) (\<lambda>browser_data.
     and_then (py_get json_data ''app_name'' (JStr '''')) (\<lambda>name.
     and_then (py_get json_data ''processing_time_seconds'' (JStr ''0.000'')) (\<lambda>time.
     and_then (py_get json_data ''is_browser'' (JBool False)) (\<lambda>browser.
       Inr \<lparr>ResponseData.app_name = name, elements = elements, stats = stats,
            processing_time_seconds = time, is_browser = browser,
            browser_data = browser_data\<rparr>))))))))))"

section \<open>\<open>MacosSDK._generate_traversal_diff\<close>\<close>

text \<open>
  Attribute access on an \<open>ElementData\<close> object. The dataclass declares six fields and
  the parser sets exactly these; any other name raises \<open>AttributeError\<close>.
\<close>

definition ElementData_getattr :: "ElementData \<Rightarrow> string \<Rightarrow> py_exception + json" where
  "ElementData_getattr elem name =
     (if name = ''role'' then Inr (ElementData.role elem)
      else if name = ''text'' then Inr (ElementData.text elem)
      else if name = ''x'' then Inr (ElementData.x elem)
      else if name = ''y'' then Inr (ElementData.y elem)
      else if name = ''width'' then Inr (ElementData.width elem)
      else if name = ''height'' then Inr (ElementData.height elem)
      else Inl (no_attribute ''ElementData'' name))"

text \<open>Lists and dicts cannot be dict keys.\<close>

fun hashable :: "json \<Rightarrow> bool" where
  "hashable (JArr xs) = False"
| "hashable (JObj d) = False"
| "hashable v = True"

text \<open>
  \<open>d[k] = v\<close> on an insertion-ordered dict: an existing key keeps its place and takes
  the new value, a new key goes to the end.
\<close>

fun dict_set :: "('k \<times> 'v) list \<Rightarrow> 'k \<Rightarrow> 'v \<Rightarrow> ('k \<times> 'v) list" where
  "dict_set [] k v = [(k, v)]"
| "dict_set ((k', v') # d) k v =
     (if k' = k then (k, v) # d else (k', v') # dict_set d k v)"

text \<open>
  The comprehension \<open>{elem.ax_element: elem for elem in elements}\<close>, run from the
  dict built so far.
\<close>

fun index_by_ax_element ::
  "(json \<times> ElementData) list \<Rightarrow> ElementData list \<Rightarrow> py_exception + (json \<times> ElementData) list" where
  "index_by_ax_element d [] = Inr d"
| "index_by_ax_element d (elem # rest) =
     and_then (ElementData_getattr elem ''ax_element'') (\<lambda>k.
       if hashable k then index_by_ax_element (dict_set d k elem) rest
       else Inl (TypeError (''unhashable type: '' @ [CHR 0x27] @ type_name k @ [CHR 0x27])))"

definition generate_traversal_diff :: "ResponseData \<Rightarrow> ResponseData \<Rightarrow> py_exception + TraversalDiff" where
  "generate_traversal_diff before after =
     and_then (index_by_ax_element [] (ResponseData.elements before)) (\<lambda>before_elements.
     and_then (index_by_ax_element [] (ResponseData.elements after)) (\<lambda>after_elements.
       Inr \<lparr>added_elements =
              map snd (filter (\<lambda>kv. fst kv \<notin> fst ` set before_elements) after_elements),
            removed_elements =
              map snd (filter (\<lambda>kv. fst kv \<notin> fst ` set after_elements) before_elements),
            modified_elements = [],
            stats_before = Some (stats before),
            stats_after = Some (stats after)\<rparr>))"

section \<open>Python string operations\<close>

text \<open>
  The text the tools print is taken to be ASCII: a \<open>string\<close> is the list of its
  characters. The operations below are the \<open>str\<close> methods the wrapper calls.
\<close>

text \<open>The characters \<open>str.strip()\<close> removes: tab, line feed, vertical tab, form
  feed, carriage return, the four separators 0x1C to 0x1F and the space.\<close>

definition is_space :: "char \<Rightarrow> bool" where
  "is_space c = (c \<in> set [CHR 0x09, CHR 0x0A, CHR 0x0B, CHR 0x0C, CHR 0x0D,
                           CHR 0x1C, CHR 0x1D, CHR 0x1E, CHR 0x1F, CHR 0x20])"

definition py_strip :: "string \<Rightarrow> string" where
  "py_strip s = rev (dropWhile is_space (rev (dropWhile is_space s)))"

definition lower_char :: "char \<Rightarrow> char" where
  "lower_char c =
     (case map_of (zip ''ABCDEFGHIJKLMNOPQRSTUVWXYZ'' ''abcdefghijklmnopqrstuvwxyz'') c of
        Some l \<Rightarrow> l
      | None \<Rightarrow> c)"

definition py_lower :: "string \<Rightarrow> string" where
  "py_lower s = map lower_char s"

text \<open>\<open>sub in s\<close>: does \<open>sub\<close> occur in \<open>s\<close> as a contiguous piece.\<close>

fun py_in :: "string \<Rightarrow> string \<Rightarrow> bool" where
  "py_in sub [] = (sub = [])"
| "py_in sub (c # cs) = (prefix sub (c # cs) \<or> py_in sub cs)"

text \<open>\<open>s.split(sep)\<close> for a separator of one character.\<close>

fun split_char :: "char \<Rightarrow> string \<Rightarrow> string list" where
  "split_char sep [] = [[]]"
| "split_char sep (c # cs) =
     (if c = sep then [] # split_char sep cs
      else (case split_char sep cs of
              [] \<Rightarrow> [[c]]
            | part # parts \<Rightarrow> (c # part) # parts))"

text \<open>
  \<open>s.split(sep, 1)\<close> for a non-empty separator: the text before and the text after
  the first occurrence of \<open>sep\<close>, or \<open>s\<close> alone when there is none.
\<close>

fun split_once :: "string \<Rightarrow> string \<Rightarrow> string list" where
  "split_once sep [] = [[]]"
| "split_once sep (c # cs) =
     (if prefix sep (c # cs) then [[], drop (length sep) (c # cs)]
      else (case split_once sep cs of
              [] \<Rightarrow> [[c]]
            | part # parts \<Rightarrow> (c # part) # parts))"

text \<open>\<open>s.replace(old, new)\<close>: every occurrence, left to right, without overlap.\<close>

function py_replace :: "string \<Rightarrow> string \<Rightarrow> string \<Rightarrow> string" where
  "py_replace old new s =
     (if old = [] then new @ concat (map (\<lambda>c. c # new) s)
      else if s = [] then []
      else if prefix old s then new @ py_replace old new (drop (length old) s)
      else hd s # py_replace old new (tl s))"
  by pat_completeness auto
termination
  by (relation "measure (\<lambda>(old, new, s). length s)") auto

declare py_replace.simps [simp del]

text \<open>
  \<open>int(s)\<close> on a string: surrounding whitespace is ignored, a sign may come first,
  and the digits may be grouped by single underscores. \<open>None\<close> stands for
  \<open>ValueError\<close>.
\<close>

definition is_digit :: "char \<Rightarrow> bool" where
  "is_digit c = (c \<in> set ''0123456789'')"

definition digit_value :: "char \<Rightarrow> int" where
  "digit_value c = int (of_char c) - 48"

fun valid_digits :: "string \<Rightarrow> bool" where
  "valid_digits [] = False"
| "valid_digits [c] = is_digit c"
| "valid_digits (c # d # cs) =
     (is_digit c \<and>
      (if d = CHR ''_'' then cs \<noteq> [] \<and> valid_digits cs else valid_digits (d # cs)))"

definition digits_value :: "string \<Rightarrow> int" where
  "digits_value ds = foldl (\<lambda>acc c. 10 * acc + digit_value c) 0 (filter is_digit ds)"

definition py_int :: "string \<Rightarrow> int option" where
  "py_int s =
     (let t = py_strip s;
          negative = (t \<noteq> [] \<and> hd t = CHR ''-'');
          body = (if t \<noteq> [] \<and> (hd t = CHR ''-'' \<or> hd t = CHR ''+'') then tl t else t)
      in if valid_digits body
         then Some (if negative then - digits_value body else digits_value body)
         else None)"

text \<open>\<open>str(n)\<close> for an integer.\<close>

definition digit_char :: "nat \<Rightarrow> char" where
  "digit_char n = ''0123456789'' ! n"

function str_nat :: "nat \<Rightarrow> string" where
  "str_nat n = (if n < 10 then [digit_char n] else str_nat (n div 10) @ [digit_char (n mod 10)])"
  by pat_completeness auto
termination
  by (relation "measure id") auto

declare str_nat.simps [simp del]

definition str_int :: "int \<Rightarrow> string" where
  "str_int i = (if i < 0 then ''-'' @ str_nat (nat (- i)) else str_nat (nat i))"

text \<open>\<open>f > 0\<close> for a float.\<close>

fun float_positive :: "pyfloat \<Rightarrow> bool" where
  "float_positive (PyFloat m e) = (0 < m)"
| "float_positive (PyInf positive) = positive"
| "float_positive PyNaN = False"

section \<open>The platform\<close>

text \<open>
  What \<open>subprocess.run(..., capture_output=True, text=True, check=False)\<close> gives:
  a completed process, a \<open>SubprocessError\<close>, or another exception (an
  \<open>OSError\<close>, say).
\<close>

record CompletedProcess =
  returncode :: int
  stdout :: string
  stderr :: string

datatype run_outcome =
    Completed CompletedProcess
  | Raised_SubprocessError string
  | Raised py_exception

text \<open>
  Everything outside the wrapper, over a state \<open>'w\<close> of the machine that the tools
  read and change: the file system test of \<open>_run_tool\<close>, the process runner, the JSON
  decoder (\<open>Inl\<close> the decoder's message), the float parser and printer, the process
  list lookup behind \<open>find_running_app_pid\<close>, and \<open>asyncio.sleep\<close>.
\<close>

record 'w platform =
  swift_build_path :: string
  path_exists :: "string \<Rightarrow> 'w \<Rightarrow> bool"
  subprocess_run :: "string list \<Rightarrow> 'w \<Rightarrow> run_outcome \<times> 'w"
  json_loads :: "string \<Rightarrow> string + json"
  float_of_str :: "string \<Rightarrow> pyfloat option"
  str_of_float :: "pyfloat \<Rightarrow> string"
  find_running_app_pid :: "string \<Rightarrow> 'w \<Rightarrow> int option \<times> 'w"
  sleep :: "pyfloat \<Rightarrow> 'w \<Rightarrow> 'w"

text \<open>\<open>os.path.join\<close> of two components.\<close>

definition path_join :: "string \<Rightarrow> string \<Rightarrow> string" where
  "path_join a b =
     (if b \<noteq> [] \<and> hd b = CHR ''/'' then b
      else if a = [] \<or> last a = CHR ''/'' then a @ b
      else a @ ''/'' @ b)"

section \<open>\<open>MacosSDK._run_tool\<close> and the operations built on it\<close>

text \<open>The local \<open>error_msg\<close> of \<open>_run_tool\<close>.\<close>

definition error_msg :: "CompletedProcess \<Rightarrow> string" where
  "error_msg result =
     (if stderr result \<noteq> [] then py_strip (stderr result) else ''Unknown error'')"

definition run_tool ::
  "'w platform \<Rightarrow> string \<Rightarrow> string list \<Rightarrow> bool \<Rightarrow> 'w \<Rightarrow> (py_exception + CompletedProcess) \<times> 'w" where
  "run_tool pf tool_name args check_returncode w =
     (let tool_path = path_join (swift_build_path pf) tool_name
      in if \<not> path_exists pf tool_path w
         then (Inl (MacosUseSDKError (''Tool '' @ tool_name @ '' not found at '' @ tool_path)), w)
         else (case subprocess_run pf (tool_path # args) w of
                 (Completed result, w') \<Rightarrow>
                   if check_returncode \<and> returncode result \<noteq> 0
                   then (Inl (MacosUseSDKError (tool_name @ '' failed: '' @ error_msg result)), w')
                   else (Inr result, w')
               | (Raised_SubprocessError msg, w') \<Rightarrow>
                   (Inl (MacosUseSDKError (''Failed to run '' @ tool_name @ '': '' @ msg)), w')
               | (Raised e, w') \<Rightarrow> (Inl e, w')))"

text \<open>The asynchronous variant runs the same function on a worker thread and awaits it.\<close>

definition run_tool_async ::
  "'w platform \<Rightarrow> string \<Rightarrow> string list \<Rightarrow> bool \<Rightarrow> 'w \<Rightarrow> (py_exception + CompletedProcess) \<times> 'w" where
  "run_tool_async pf tool_name args check_returncode w =
     run_tool pf tool_name args check_returncode w"

definition parse_json_response :: "'w platform \<Rightarrow> string \<Rightarrow> string \<Rightarrow> py_exception + json" where
  "parse_json_response pf json_str response_type =
     (case json_loads pf json_str of
        Inr v \<Rightarrow> Inr v
      | Inl msg \<Rightarrow>
          Inl (MacosUseSDKError (''Failed to parse '' @ response_type @ '' JSON response: '' @ msg)))"

subsection \<open>\<open>open_application\<close>\<close>

text \<open>
  The loop over the stderr lines: every line with the marker overwrites the timing
  string, so the last one wins; with no such line the initial \<open>0.000\<close> stays.
\<close>

definition scan_processing_time :: "string list \<Rightarrow> string" where
  "scan_processing_time stderr_lines =
     foldl (\<lambda>processing_time line.
              if py_in ''total execution time:'' line
              then py_replace '' seconds'' '''' (py_strip (last (split_char CHR '':'' line)))
              else processing_time)
           ''0.000'' stderr_lines"

text \<open>The handler \<open>except MacosUseSDKError as e\<close> of \<open>open_application\<close>.\<close>

definition open_application_except :: "string \<Rightarrow> py_exception \<Rightarrow> py_exception" where
  "open_application_except identifier e =
     (if is_MacosUseSDKError e
      then (if py_in ''not found'' (py_lower (str_exception e))
            then AppNotFoundError (''Application not found: '' @ identifier)
            else e)
      else e)"

definition open_application ::
  "'w platform \<Rightarrow> string \<Rightarrow> 'w \<Rightarrow> (py_exception + AppOpenerResult) \<times> 'w" where
  "open_application pf identifier w =
     (case run_tool_async pf ''AppOpenerTool'' [identifier] True w of
        (Inl e, w') \<Rightarrow> (Inl (open_application_except identifier e), w')
      | (Inr result, w') \<Rightarrow>
          (case py_int (py_strip (stdout result)) of
             None \<Rightarrow>
               (Inl (open_application_except identifier
                       (ValueError (''invalid literal for int() with base 10: '' @
                                    [CHR 0x27] @ py_strip (stdout result) @ [CHR 0x27]))), w')
           | Some p \<Rightarrow>
               (Inr \<lparr>pid = p, app_name = identifier,
                     processing_time_seconds =
                       scan_processing_time (split_char CHR 0x0A (py_strip (stderr result)))\<rparr>,
                w')))"

subsection \<open>\<open>traverse_accessibility_tree\<close>\<close>

datatype pid_or_identifier = Pid int | Identifier string

fun str_pid_or_identifier :: "pid_or_identifier \<Rightarrow> string" where
  "str_pid_or_identifier (Pid p) = str_int p"
| "str_pid_or_identifier (Identifier s) = s"

text \<open>The handler \<open>except MacosUseSDKError as e\<close> of \<open>traverse_accessibility_tree\<close>.\<close>

definition traverse_except :: "pid_or_identifier \<Rightarrow> py_exception \<Rightarrow> py_exception" where
  "traverse_except pid_or_identifier e =
     (if is_MacosUseSDKError e
      then (if py_in ''accessibility'' (py_lower (str_exception e))
            then AccessibilityError (str_exception e)
            else if py_in ''not found'' (py_lower (str_exception e))
            then AppNotFoundError (''No application found for identifier '' @
                                   str_pid_or_identifier pid_or_identifier)
            else e)
      else e)"

definition resolve_pid ::
  "'w platform \<Rightarrow> pid_or_identifier \<Rightarrow> 'w \<Rightarrow> (py_exception + int) \<times> 'w" where
  "resolve_pid pf pid_or_identifier w =
     (case pid_or_identifier of
        Identifier s \<Rightarrow>
          (case find_running_app_pid pf s w of
             (None, w') \<Rightarrow>
               (Inl (AppNotFoundError (''No running application found for identifier: '' @ s)), w')
           | (Some p, w') \<Rightarrow> (Inr p, w'))
      | Pid p \<Rightarrow> (Inr p, w))"

definition traverse_accessibility_tree ::
  "'w platform \<Rightarrow> pid_or_identifier \<Rightarrow> bool \<Rightarrow> 'w \<Rightarrow> (py_exception + ResponseData) \<times> 'w" where
  "traverse_accessibility_tree pf pid_or_identifier only_visible w =
     (case resolve_pid pf pid_or_identifier w of
        (Inl e, w0) \<Rightarrow> (Inl e, w0)
      | (Inr p, w0) \<Rightarrow>
          (let args = (if only_visible then [''--visible-only''] else []) @ [str_int p]
           in case run_tool_async pf ''TraversalTool'' args True w0 of
                (Inl e, w1) \<Rightarrow> (Inl (traverse_except pid_or_identifier e), w1)
              | (Inr result, w1) \<Rightarrow>
                  (case and_then (parse_json_response pf (stdout result) ''traversal'')
                          parse_response_data of
                     Inl e \<Rightarrow> (Inl (traverse_except pid_or_identifier e), w1)
                   | Inr data \<Rightarrow> (Inr data, w1))))"

subsection \<open>Input simulation\<close>

definition run_input_action ::
  "'w platform \<Rightarrow> string \<Rightarrow> string list \<Rightarrow> 'w \<Rightarrow> (py_exception + unit) \<times> 'w" where
  "run_input_action pf action args w =
     (case run_tool_async pf ''InputControllerTool'' (action # args) True w of
        (Inl e, w') \<Rightarrow>
          (Inl (if is_MacosUseSDKError e
                then InputSimulationError (''Input simulation failed: '' @ str_exception e)
                else e), w')
      | (Inr result, w') \<Rightarrow> (Inr (), w'))"

definition run_visual_input_action ::
  "'w platform \<Rightarrow> string \<Rightarrow> string list \<Rightarrow> pyfloat \<Rightarrow> 'w \<Rightarrow> (py_exception + unit) \<times> 'w" where
  "run_visual_input_action pf action args duration w =
     (let full_args = [action] @ args @ [''--duration'', str_of_float pf duration]
      in case run_tool_async pf ''VisualInputTool'' full_args True w of
           (Inl e, w') \<Rightarrow>
             (Inl (if is_MacosUseSDKError e
                   then InputSimulationError
                          (''Visual input simulation failed: '' @ str_exception e)
                   else e), w')
         | (Inr result, w') \<Rightarrow> (Inr (), w'))"

definition click :: "'w platform \<Rightarrow> pyfloat \<Rightarrow> pyfloat \<Rightarrow> 'w \<Rightarrow> (py_exception + unit) \<times> 'w" where
  "click pf px py w = run_input_action pf ''click'' [str_of_float pf px, str_of_float pf py] w"

definition double_click :: "'w platform \<Rightarrow> pyfloat \<Rightarrow> pyfloat \<Rightarrow> 'w \<Rightarrow> (py_exception + unit) \<times> 'w" where
  "double_click pf px py w =
     run_input_action pf ''doubleclick'' [str_of_float pf px, str_of_float pf py] w"

definition right_click :: "'w platform \<Rightarrow> pyfloat \<Rightarrow> pyfloat \<Rightarrow> 'w \<Rightarrow> (py_exception + unit) \<times> 'w" where
  "right_click pf px py w =
     run_input_action pf ''rightclick'' [str_of_float pf px, str_of_float pf py] w"

definition move_mouse :: "'w platform \<Rightarrow> pyfloat \<Rightarrow> pyfloat \<Rightarrow> 'w \<Rightarrow> (py_exception + unit) \<times> 'w" where
  "move_mouse pf px py w =
     run_input_action pf ''mousemove'' [str_of_float pf px, str_of_float pf py] w"

definition type_text :: "'w platform \<Rightarrow> string \<Rightarrow> 'w \<Rightarrow> (py_exception + unit) \<times> 'w" where
  "type_text pf txt w = run_input_action pf ''writetext'' [txt] w"

definition press_key :: "'w platform \<Rightarrow> string \<Rightarrow> 'w \<Rightarrow> (py_exception + unit) \<times> 'w" where
  "press_key pf key w = run_input_action pf ''keypress'' [key] w"

definition scroll ::
  "'w platform \<Rightarrow> pyfloat \<Rightarrow> pyfloat \<Rightarrow> int \<Rightarrow> int \<Rightarrow> 'w \<Rightarrow> (py_exception + unit) \<times> 'w" where
  "scroll pf px py delta_y delta_x w =
     run_input_action pf ''scroll''
       [str_of_float pf px, str_of_float pf py, str_int delta_y, str_int delta_x] w"

definition click_visual ::
  "'w platform \<Rightarrow> pyfloat \<Rightarrow> pyfloat \<Rightarrow> pyfloat \<Rightarrow> 'w \<Rightarrow> (py_exception + unit) \<times> 'w" where
  "click_visual pf px py duration w =
     run_visual_input_action pf ''click'' [str_of_float pf px, str_of_float pf py] duration w"

definition double_click_visual ::
  "'w platform \<Rightarrow> pyfloat \<Rightarrow> pyfloat \<Rightarrow> pyfloat \<Rightarrow> 'w \<Rightarrow> (py_exception + unit) \<times> 'w" where
  "double_click_visual pf px py duration w =
     run_visual_input_action pf ''doubleclick'' [str_of_float pf px, str_of_float pf py] duration w"

definition right_click_visual ::
  "'w platform \<Rightarrow> pyfloat \<Rightarrow> pyfloat \<Rightarrow> pyfloat \<Rightarrow> 'w \<Rightarrow> (py_exception + unit) \<times> 'w" where
  "right_click_visual pf px py duration w =
     run_visual_input_action pf ''rightclick'' [str_of_float pf px, str_of_float pf py] duration w"

definition move_mouse_visual ::
  "'w platform \<Rightarrow> pyfloat \<Rightarrow> pyfloat \<Rightarrow> pyfloat \<Rightarrow> 'w \<Rightarrow> (py_exception + unit) \<times> 'w" where
  "move_mouse_visual pf px py duration w =
     run_visual_input_action pf ''mousemove'' [str_of_float pf px, str_of_float pf py] duration w"

subsection \<open>Output control\<close>

datatype OutputControllerAction = SET_VOLUME | GET_VOLUME | SET_BRIGHTNESS | GET_BRIGHTNESS

fun action_value :: "OutputControllerAction \<Rightarrow> string" where
  "action_value SET_VOLUME = ''set-volume''"
| "action_value GET_VOLUME = ''get-volume''"
| "action_value SET_BRIGHTNESS = ''set-brightness''"
| "action_value GET_BRIGHTNESS = ''get-brightness''"

text \<open>
  The loop over the stderr lines: the first line with the marker gives the message and
  ends the loop; with no such line the initial empty message stays.
\<close>

fun scan_success_message :: "string list \<Rightarrow> string" where
  "scan_success_message [] = ''''"
| "scan_success_message (line # rest) =
     (if py_in ''Success:'' line then py_strip (split_once ''Success:'' line ! 1)
      else scan_success_message rest)"

definition run_output_controller_action ::
  "'w platform \<Rightarrow> OutputControllerAction \<Rightarrow> pyfloat option \<Rightarrow> 'w
     \<Rightarrow> (py_exception + OutputControllerResult) \<times> 'w" where
  "run_output_controller_action pf action val w =
     (let args = [action_value action] @
                 (case val of None \<Rightarrow> [] | Some v \<Rightarrow> [str_of_float pf v])
      in case run_tool_async pf ''OutputControllerTool'' args True w of
           (Inl e, w') \<Rightarrow>
             (Inl (if is_MacosUseSDKError e
                   then OutputControllerError
                          (''Output controller operation failed: '' @ str_exception e)
                   else e), w')
         | (Inr result, w') \<Rightarrow>
             (let value_output = py_strip (stdout result);
                  parsed_value = (if value_output \<noteq> [] then float_of_str pf value_output
                                  else None);
                  stderr_lines = split_char CHR 0x0A (py_strip (stderr result))
              in (Inr \<lparr>value = parsed_value,
                       message = scan_success_message stderr_lines\<rparr>, w')))"

section \<open>\<open>MacosSDK.perform_action\<close>\<close>

type_synonym point = "(string \<times> pyfloat) list"

datatype InputAction =
    Click point
  | DoubleClick point
  | RightClick point
  | Type string
  | Press string int
  | Move point
  | Scroll point int int

datatype PrimaryAction = Open string | Input InputAction | TraverseOnly

text \<open>\<open>point[k]\<close>: a missing key raises \<open>KeyError\<close>.\<close>

definition point_getitem :: "point \<Rightarrow> string \<Rightarrow> py_exception + pyfloat" where
  "point_getitem pt k =
     (case map_of pt k of
        None \<Rightarrow> Inl (KeyError ([CHR 0x27] @ k @ [CHR 0x27]))
      | Some v \<Rightarrow> Inr v)"

text \<open>The two coordinates of a point, read in the order \<open>x\<close>, \<open>y\<close>.\<close>

definition point_xy :: "point \<Rightarrow> py_exception + pyfloat \<times> pyfloat" where
  "point_xy pt =
     and_then (point_getitem pt ''x'') (\<lambda>px.
     and_then (point_getitem pt ''y'') (\<lambda>py. Inr (px, py)))"

fun execute_input_action ::
  "'w platform \<Rightarrow> InputAction \<Rightarrow> ActionOptions \<Rightarrow> 'w \<Rightarrow> (py_exception + unit) \<times> 'w" where
  "execute_input_action pf (Click pt) options w =
     (case point_xy pt of
        Inl e \<Rightarrow> (Inl e, w)
      | Inr (px, py) \<Rightarrow>
          if show_animation options
          then click_visual pf px py (animation_duration options) w
          else click pf px py w)"
| "execute_input_action pf (DoubleClick pt) options w =
     (case point_xy pt of
        Inl e \<Rightarrow> (Inl e, w)
      | Inr (px, py) \<Rightarrow>
          if show_animation options
          then double_click_visual pf px py (animation_duration options) w
          else double_click pf px py w)"
| "execute_input_action pf (RightClick pt) options w =
     (case point_xy pt of
        Inl e \<Rightarrow> (Inl e, w)
      | Inr (px, py) \<Rightarrow>
          if show_animation options
          then right_click_visual pf px py (animation_duration options) w
          else right_click pf px py w)"
| "execute_input_action pf (Type txt) options w = type_text pf txt w"
| "execute_input_action pf (Press key_name flags) options w = press_key pf key_name w"
| "execute_input_action pf (Move to) options w =
     (case point_xy to of
        Inl e \<Rightarrow> (Inl e, w)
      | Inr (px, py) \<Rightarrow>
          if show_animation options
          then move_mouse_visual pf px py (animation_duration options) w
          else move_mouse pf px py w)"
| "execute_input_action pf (Scroll pt delta_y delta_x) options w =
     (case point_xy pt of
        Inl e \<Rightarrow> (Inl e, w)
      | Inr (px, py) \<Rightarrow> scroll pf px py delta_y delta_x w)"

text \<open>
  The stages of \<open>perform_action\<close>, one per commented block of the method. Each takes
  the result record built so far and the state of the machine and returns both.
  \<open>except Exception\<close> catches every exception of the model.
\<close>

text \<open>
  The open stage: \<open>Inl\<close> is the early \<open>return result\<close> after a failed open,
  \<open>Inr\<close> the result the method goes on with.
\<close>

definition handle_open ::
  "'w platform \<Rightarrow> PrimaryAction \<Rightarrow> ActionResult \<Rightarrow> 'w \<Rightarrow> (ActionResult + ActionResult) \<times> 'w" where
  "handle_open pf action result w =
     (case action of
        Open identifier \<Rightarrow>
          (case open_application pf identifier w of
             (Inr opened, w') \<Rightarrow>
               (Inr (result\<lparr>open_result := Some opened, traversal_pid := Some (pid opened)\<rparr>), w')
           | (Inl e, w') \<Rightarrow>
               (Inl (result\<lparr>primary_action_error := Some (str_exception e)\<rparr>), w'))
      | _ \<Rightarrow> (Inr result, w))"

text \<open>
  The condition \<open>result.traversal_pid\<close> of both traversal stages is true when the
  field is set and not zero; the pid handed to the traversal is then that value.
\<close>

definition handle_traversal_before ::
  "'w platform \<Rightarrow> ActionOptions \<Rightarrow> ActionResult \<Rightarrow> 'w \<Rightarrow> ActionResult \<times> 'w" where
  "handle_traversal_before pf options result w =
     (case traversal_pid result of
        None \<Rightarrow> (result, w)
      | Some p \<Rightarrow>
          if traverse_before options \<and> p \<noteq> 0
          then (case traverse_accessibility_tree pf (Pid p) (only_visible_elements options) w of
                  (Inr data, w') \<Rightarrow> (result\<lparr>traversal_before := Some data\<rparr>, w')
                | (Inl e, w') \<Rightarrow>
                    (result\<lparr>traversal_before_error := Some (str_exception e)\<rparr>, w'))
          else (result, w))"

definition handle_input ::
  "'w platform \<Rightarrow> PrimaryAction \<Rightarrow> ActionOptions \<Rightarrow> ActionResult \<Rightarrow> 'w \<Rightarrow> ActionResult \<times> 'w" where
  "handle_input pf action options result w =
     (case action of
        Input input_action \<Rightarrow>
          (case execute_input_action pf input_action options w of
             (Inr u, w') \<Rightarrow> (result, w')
           | (Inl e, w') \<Rightarrow> (result\<lparr>primary_action_error := Some (str_exception e)\<rparr>, w'))
      | _ \<Rightarrow> (result, w))"

definition delay_after ::  "'w platform \<Rightarrow> ActionOptions \<Rightarrow> 'w \<Rightarrow> 'w" where
  "delay_after pf options w =
     (if float_positive (delay_after_action options)
      then sleep pf (delay_after_action options) w
      else w)"

definition handle_traversal_after ::
  "'w platform \<Rightarrow> ActionOptions \<Rightarrow> ActionResult \<Rightarrow> 'w \<Rightarrow> ActionResult \<times> 'w" where
  "handle_traversal_after pf options result w =
     (case traversal_pid result of
        None \<Rightarrow> (result, w)
      | Some p \<Rightarrow>
          if traverse_after options \<and> p \<noteq> 0
          then (case traverse_accessibility_tree pf (Pid p) (only_visible_elements options) w of
                  (Inr data, w') \<Rightarrow> (result\<lparr>traversal_after := Some data\<rparr>, w')
                | (Inl e, w') \<Rightarrow>
                    (result\<lparr>traversal_after_error := Some (str_exception e)\<rparr>, w'))
          else (result, w))"

text \<open>
  The diff is computed outside every \<open>try\<close>: an exception of the differ leaves
  \<open>perform_action\<close>.
\<close>

definition generate_diff_if_requested :: "ActionOptions \<Rightarrow> ActionResult \<Rightarrow> py_exception + ActionResult" where
  "generate_diff_if_requested options result =
     (case (show_diff options, traversal_before result, traversal_after result) of
        (True, Some before, Some after) \<Rightarrow>
          and_then (generate_traversal_diff before after)
            (\<lambda>d. Inr (result\<lparr>traversal_diff := Some d\<rparr>))
      | _ \<Rightarrow> Inr result)"

definition perform_action ::
  "'w platform \<Rightarrow> PrimaryAction \<Rightarrow> ActionOptions option \<Rightarrow> 'w \<Rightarrow> (py_exception + ActionResult) \<times> 'w" where
  "perform_action pf action options_arg w =
     (let options = perform_action_options options_arg
      in case handle_open pf action ActionResult_init w of
           (Inl result, w1) \<Rightarrow> (Inr result, w1)
         | (Inr result, w1) \<Rightarrow>
             (let (result, w2) = handle_traversal_before pf options result w1;
                  (result, w3) = handle_input pf action options result w2;
                  w4 = delay_after pf options w3;
                  (result, w5) = handle_traversal_after pf options result w4
              in (generate_diff_if_requested options result, w5)))"

section \<open>Sample traversal documents and snapshots\<close>

text \<open>
  A traversal document as the traversal tool prints it, with one button per given text,
  and the snapshot the parser builds from it.
\<close>

definition traversal_document :: "string list \<Rightarrow> json" where
  "traversal_document ts =
     JObj [(''app_name'', JStr ''Calculator''),
           (''elements'',
            JArr (map (\<lambda>t. JObj [(''role'', JStr ''AXButton''), (''text'', JStr t)]) ts))]"

definition button :: "string \<Rightarrow> ElementData" where
  "button t = \<lparr>ElementData.role = JStr ''AXButton'', text = JStr t,
                x = JNull, y = JNull, width = JNull, height = JNull\<rparr>"

definition snapshot :: "ElementData list \<Rightarrow> ResponseData" where
  "snapshot es = \<lparr>ResponseData.app_name = JStr ''Calculator'', elements = es,
                   stats = Statistics_init, processing_time_seconds = JStr ''0.000'',
                   is_browser = JBool False, browser_data = None\<rparr>"

section \<open>Tool invocations that exit with a non-zero code\<close>

text \<open>
  The tool exists, the process runs to completion on the state \<open>w\<close> of the machine,
  leaves the state \<open>w'\<close> and exits with a non-zero code.
\<close>

definition exits_nonzero ::
  "'w platform \<Rightarrow> string \<Rightarrow> string list \<Rightarrow> 'w \<Rightarrow> CompletedProcess \<Rightarrow> 'w \<Rightarrow> bool" where
  "exits_nonzero pf tool_name args w result w' \<longleftrightarrow>
     path_exists pf (path_join (swift_build_path pf) tool_name) w \<and>
     subprocess_run pf (path_join (swift_build_path pf) tool_name # args) w
       = (Completed result, w') \<and>
     returncode result \<noteq> 0"

section \<open>A sample platform\<close>

text \<open>
  A platform for running the model on concrete inputs. Its state is the list of the
  command lines run so far; every tool exists; a script gives the outcome of a command
  from the command line and the number of commands run before it. The decoder knows
  the empty JSON object, the float parser and printer know one half.
\<close>

definition scripted_platform :: "(string list \<Rightarrow> nat \<Rightarrow> run_outcome) \<Rightarrow> string list list platform" where
  "scripted_platform script =
     \<lparr>swift_build_path = ''/sdk'',
      path_exists = (\<lambda>p w. True),
      subprocess_run = (\<lambda>cmd w. (script cmd (length w), w @ [cmd])),
      json_loads = (\<lambda>s. if s = ''{}'' then Inr (JObj [])
                         else Inl ''Expecting value: line 1 column 1 (char 0)''),
      float_of_str = (\<lambda>s. if s = ''0.5'' then Some (PyFloat 1 (- 1)) else None),
      str_of_float = (\<lambda>f. if f = PyFloat 1 (- 1) then ''0.5'' else ''0.0''),
      find_running_app_pid = (\<lambda>s w. (None, w)),
      sleep = (\<lambda>d w. w)\<rparr>"

text \<open>A process that exits with the given code, standard output and standard error.\<close>

definition exited :: "int \<Rightarrow> string \<Rightarrow> string \<Rightarrow> run_outcome" where
  "exited code out err = Completed \<lparr>returncode = code, stdout = out, stderr = err\<rparr>"

text \<open>
  Three scripts: every command exits with the same code and output; the opener prints
  a pid and the output controller a level, with no marker line on standard error; the
  opener succeeds, the first traversal fails and every later command prints an empty
  traversal document.
\<close>

definition always_exits :: "int \<Rightarrow> string \<Rightarrow> string \<Rightarrow> string list \<Rightarrow> nat \<Rightarrow> run_outcome" where
  "always_exits code out err cmd n = exited code out err"

definition tools_succeed :: "string list \<Rightarrow> nat \<Rightarrow> run_outcome" where
  "tools_succeed cmd n =
     (if hd cmd = ''/sdk/AppOpenerTool'' then exited 0 ''4242'' ''info: activating Calculator''
      else exited 0 ''0.5'' ''volume read'')"

definition first_traversal_fails :: "string list \<Rightarrow> nat \<Rightarrow> run_outcome" where
  "first_traversal_fails cmd n =
     (if n = 0 then exited 0 ''4242'' ''''
      else if n = 1 then exited 1 '''' ''AXError: cannot complete''
      else exited 0 ''{}'' '''')"


section \<open>Properties of \<open>ActionOptions.validated\<close>\<close>

text \<open>
  C5. For every options value, the configuration \<open>perform_action\<close> works with has both
  traversal switches on whenever \<open>show_diff\<close> is on, whatever the caller supplied for
  them, and every other field is the caller's.
\<close>

theorem perform_action_options_show_diff:
  "(show_diff (perform_action_options (Some opts)) \<longrightarrow>
      traverse_before (perform_action_options (Some opts)) \<and>
      traverse_after (perform_action_options (Some opts))) \<and>
   show_diff (perform_action_options (Some opts)) = show_diff opts \<and>
   only_visible_elements (perform_action_options (Some opts)) = only_visible_elements opts \<and>
   show_animation (perform_action_options (Some opts)) = show_animation opts \<and>
   animation_duration (perform_action_options (Some opts)) = animation_duration opts \<and>
   pid_for_traversal (perform_action_options (Some opts)) = pid_for_traversal opts \<and>
   delay_after_action (perform_action_options (Some opts)) = delay_after_action opts"
  by (simp add: perform_action_options_def validated_def Let_def)

theorem perform_action_options_show_diff_witness:
  "show_diff (perform_action_options (Some (ActionOptions_init\<lparr>show_diff := True\<rparr>))) \<and>
   traverse_before (perform_action_options (Some (ActionOptions_init\<lparr>show_diff := True\<rparr>))) \<and>
   traverse_after (perform_action_options (Some (ActionOptions_init\<lparr>show_diff := True\<rparr>))) \<and>
   \<not> traverse_before (ActionOptions_init\<lparr>show_diff := True\<rparr>) \<and>
   \<not> traverse_after (ActionOptions_init\<lparr>show_diff := True\<rparr>)"
  using perform_action_options_show_diff [of "ActionOptions_init\<lparr>show_diff := True\<rparr>"]
  by (simp add: ActionOptions_init_def)

text \<open>
  C10. \<open>validated\<close> does not change the receiver: the object it returns is a new one
  (its reference is the first unused one, so it differs from the receiver), every object
  the store held before the call, the receiver among them, is the same afterwards, and the
  new object holds the validated value of the receiver.
\<close>

theorem validated_in_store_frame:
  assumes "self < length h"
  shows "fst (validated_in_store self h) = length h \<and>
         fst (validated_in_store self h) \<noteq> self \<and>
         take (length h) (snd (validated_in_store self h)) = h \<and>
         snd (validated_in_store self h) ! self = h ! self \<and>
         snd (validated_in_store self h) ! fst (validated_in_store self h) = validated (h ! self)"
  using assms
  by (simp add: validated_in_store_def new_ActionOptions_def setattr_traverse_before_def
      setattr_traverse_after_def validated_def Let_def nth_append)

theorem validated_in_store_frame_witness:
  "(0::nat) < length [ActionOptions_init\<lparr>show_diff := True\<rparr>] \<and>
   fst (validated_in_store 0 [ActionOptions_init\<lparr>show_diff := True\<rparr>]) = 1 \<and>
   snd (validated_in_store 0 [ActionOptions_init\<lparr>show_diff := True\<rparr>]) ! 0
     = ActionOptions_init\<lparr>show_diff := True\<rparr> \<and>
   \<not> traverse_before (snd (validated_in_store 0 [ActionOptions_init\<lparr>show_diff := True\<rparr>]) ! 0) \<and>
   traverse_before (snd (validated_in_store 0 [ActionOptions_init\<lparr>show_diff := True\<rparr>]) ! 1)"
  using validated_in_store_frame [of 0 "[ActionOptions_init\<lparr>show_diff := True\<rparr>]"]
  by (simp add: validated_in_store_def new_ActionOptions_def setattr_traverse_before_def
      setattr_traverse_after_def validated_def ActionOptions_init_def)

section \<open>Properties of the parser\<close>

lemma parse_statistics_default: "parse_statistics (JObj []) = Inr Statistics_init"
  by (simp add: parse_statistics_def Statistics_init_def dict_get_def)

lemma parse_statistics_succeeds_iff:
  "(\<exists>st. parse_statistics v = Inr st) \<longleftrightarrow> (\<exists>d. v = JObj d)"
  by (cases v) (simp_all add: parse_statistics_def)

lemma parse_browser_data_falsy: "\<not> truthy bd \<Longrightarrow> parse_browser_data bd = Inr None"
  by (simp add: parse_browser_data_def)

lemma parse_traversal_document:
  "parse_response_data (traversal_document ts) = Inr (snapshot (map button ts))"
proof -
  have "for_each parse_element
          (map (\<lambda>t. JObj [(''role'', JStr ''AXButton''), (''text'', JStr t)]) ts)
        = Inr (map button ts)"
    by (induction ts) (simp_all add: parse_element_def dict_get_def button_def and_then_def)
  then show ?thesis
    by (simp add: parse_response_data_def traversal_document_def and_then_def dict_get_def
        parse_statistics_default parse_browser_data_falsy snapshot_def)
qed

text \<open>
  C4, as stated, fails: a document whose \<open>elements\<close> array is empty but whose
  \<open>stats\<close> value is \<open>null\<close> raises \<open>AttributeError\<close>, and a document without
  \<open>stats\<close> whose \<open>elements\<close> value is \<open>null\<close> raises \<open>TypeError\<close>.
\<close>

theorem parse_response_data_ill_typed_counterexample:
  "parse_response_data (JObj [(''elements'', JArr []), (''stats'', JNull)])
     = Inl (no_attribute ''NoneType'' ''get'') \<and>
   parse_response_data (JObj [(''elements'', JNull)])
     = Inl (TypeError ([CHR 0x27] @ ''NoneType'' @ [CHR 0x27] @ '' object is not iterable''))"
  by (simp add: parse_response_data_def and_then_def dict_get_def parse_statistics_def
         parse_statistics_default)

text \<open>
  C4, amended. A JSON object whose \<open>elements\<close> array is empty parses to a snapshot
  with no elements whenever its \<open>stats\<close> and \<open>browser_data\<close> parts parse; a JSON
  object without a \<open>stats\<close> key parses to a snapshot whose statistics are all zero, with
  no role counts, whenever its \<open>elements\<close> and \<open>browser_data\<close> parts parse.
\<close>

theorem parse_response_data_empty_elements_missing_stats:
  "(map_of d ''elements'' = Some (JArr []) \<and>
    parse_statistics (dict_get d ''stats'' (JObj [])) = Inr st \<and>
    parse_browser_data (dict_get d ''browser_data'' JNull) = Inr bd \<longrightarrow>
      parse_response_data (JObj d) =
        Inr \<lparr>ResponseData.app_name = dict_get d ''app_name'' (JStr ''''),
             elements = [], stats = st,
             processing_time_seconds = dict_get d ''processing_time_seconds'' (JStr ''0.000''),
             is_browser = dict_get d ''is_browser'' (JBool False),
             browser_data = bd\<rparr>) \<and>
   (map_of d ''stats'' = None \<and>
    and_then (py_iter (dict_get d ''elements'' (JArr []))) (for_each parse_element) = Inr es \<and>
    parse_browser_data (dict_get d ''browser_data'' JNull) = Inr bd \<longrightarrow>
      parse_response_data (JObj d) =
        Inr \<lparr>ResponseData.app_name = dict_get d ''app_name'' (JStr ''''),
             elements = es, stats = Statistics_init,
             processing_time_seconds = dict_get d ''processing_time_seconds'' (JStr ''0.000''),
             is_browser = dict_get d ''is_browser'' (JBool False),
             browser_data = bd\<rparr>)"
  by (auto simp add: parse_response_data_def and_then_def dict_get_def parse_statistics_default
      split: sum.splits)

theorem parse_response_data_empty_elements_missing_stats_witness:
  "map_of [(''elements'', JArr [])] ''elements'' = Some (JArr []) \<and>
   map_of [(''elements'', JArr [])] ''stats'' = None \<and>
   parse_statistics (dict_get [(''elements'', JArr [])] ''stats'' (JObj [])) = Inr Statistics_init \<and>
   parse_browser_data (dict_get [(''elements'', JArr [])] ''browser_data'' JNull) = Inr None \<and>
   and_then (py_iter (dict_get [(''elements'', JArr [])] ''elements'' (JArr [])))
     (for_each parse_element) = Inr [] \<and>
   parse_response_data (JObj [(''elements'', JArr [])]) =
     Inr \<lparr>ResponseData.app_name = JStr '''', elements = [], stats = Statistics_init,
          processing_time_seconds = JStr ''0.000'', is_browser = JBool False,
          browser_data = None\<rparr>"
  using parse_response_data_empty_elements_missing_stats
          [of "[(''elements'', JArr [])]" Statistics_init None "[]"]
  by (simp add: dict_get_def parse_statistics_default parse_browser_data_falsy and_then_def)

section \<open>Properties of the snapshot differ\<close>

lemma generate_traversal_diff_raises:
  "ResponseData.elements before \<noteq> [] \<or> ResponseData.elements after \<noteq> [] \<Longrightarrow>
   generate_traversal_diff before after = Inl (no_attribute ''ElementData'' ''ax_element'')"
  by (cases "ResponseData.elements before"; cases "ResponseData.elements after")
     (simp_all add: generate_traversal_diff_def ElementData_getattr_def and_then_def)

text \<open>
  C1. The claim wants the diff of a snapshot against itself to have no added and no
  removed element. For the snapshot of a single button the differ returns no diff at all:
  reading \<open>ax_element\<close> from the element raises \<open>AttributeError\<close>.
\<close>

theorem generate_traversal_diff_self_raises:
  "generate_traversal_diff (snapshot [button ''e1'']) (snapshot [button ''e1''])
     = Inl (no_attribute ''ElementData'' ''ax_element'')"
  by (simp add: generate_traversal_diff_raises snapshot_def)

text \<open>
  C2. The claim wants the differ never to raise. The snapshot the parser builds from a
  document with one element, diffed against the snapshot of a document with none, raises
  \<open>AttributeError\<close>.
\<close>

theorem generate_traversal_diff_parsed_raises:
  "parse_response_data (traversal_document [''OK'']) = Inr (snapshot [button ''OK'']) \<and>
   parse_response_data (traversal_document []) = Inr (snapshot []) \<and>
   generate_traversal_diff (snapshot [button ''OK'']) (snapshot [])
     = Inl (no_attribute ''ElementData'' ''ax_element'')"
  using parse_traversal_document [of "[''OK'']"] parse_traversal_document [of "[]"]
  by (simp add: generate_traversal_diff_raises snapshot_def)

text \<open>
  C3. On the two pairs of snapshots of the claim (elements told apart by their text, the
  only place an \<open>ElementData\<close> can carry \<open>e1\<close> or \<open>e2\<close>) the differ raises
  \<open>AttributeError\<close> instead of returning the added and the removed element.
\<close>

theorem generate_traversal_diff_e1_e2_raises:
  "generate_traversal_diff (snapshot [button ''e1'']) (snapshot [button ''e1'', button ''e2''])
     = Inl (no_attribute ''ElementData'' ''ax_element'') \<and>
   generate_traversal_diff (snapshot [button ''e1'', button ''e2'']) (snapshot [button ''e2''])
     = Inl (no_attribute ''ElementData'' ''ax_element'')"
  by (simp add: generate_traversal_diff_raises snapshot_def)

text \<open>
  C9. When both snapshots have no elements, the differ returns a diff with no added, no
  removed and no modified element, whose statistics are those of the two snapshots.
\<close>

theorem generate_traversal_diff_empty:
  assumes "ResponseData.elements before = []" and "ResponseData.elements after = []"
  shows "generate_traversal_diff before after =
           Inr \<lparr>added_elements = [], removed_elements = [], modified_elements = [],
                stats_before = Some (stats before), stats_after = Some (stats after)\<rparr>"
  using assms by (simp add: generate_traversal_diff_def and_then_def)

theorem generate_traversal_diff_empty_witness:
  "ResponseData.elements (snapshot []) = [] \<and>
   generate_traversal_diff (snapshot []) (snapshot []) =
     Inr \<lparr>added_elements = [], removed_elements = [], modified_elements = [],
          stats_before = Some Statistics_init, stats_after = Some Statistics_init\<rparr>"
  using generate_traversal_diff_empty [of "snapshot []" "snapshot []"]
  by (simp add: snapshot_def)

section \<open>Properties of the string operations\<close>

lemma py_in_iff_sublist: "py_in sub s \<longleftrightarrow> sublist sub s"
  by (induction s) (simp_all add: sublist_Cons_right)

lemma split_char_not_Nil: "split_char c s \<noteq> []"
  by (induction s) (simp_all split: list.splits)

lemma split_char_line_sublist: "line \<in> set (split_char c s) \<Longrightarrow> sublist line s"
proof (induction s arbitrary: line)
  case Nil
  then show ?case by simp
next
  case (Cons x xs)
  show ?case
  proof (cases "x = c")
    case True
    with Cons.prems have "line = [] \<or> line \<in> set (split_char c xs)" by simp
    then show ?thesis using Cons.IH by (auto simp: sublist_Cons_right)
  next
    case False
    obtain f fs where sp: "split_char c xs = f # fs"
      using split_char_not_Nil [of c xs] by (cases "split_char c xs") auto
    with False Cons.prems have "line = x # f \<or> line \<in> set fs" by simp
    then show ?thesis
    proof
      assume l: "line = x # f"
      have "sublist f xs" using Cons.IH [of f] sp by simp
      moreover have "prefix f xs"
        using sp
      proof (induction xs arbitrary: f fs)
        case Nil
        then show ?case by simp
      next
        case (Cons a as)
        then show ?case
          by (cases "split_char c as") (auto split: if_splits)
      qed
      ultimately show ?thesis using l by (simp add: sublist_Cons_right)
    next
      assume "line \<in> set fs"
      then have "sublist line xs" using Cons.IH sp by simp
      then show ?thesis by (simp add: sublist_Cons_right)
    qed
  qed
qed

lemma prefix_first_field:
  "c \<notin> set m \<Longrightarrow> prefix m s \<Longrightarrow> prefix m (hd (split_char c s))"
proof (induction s arbitrary: m)
  case Nil
  then show ?case by simp
next
  case (Cons x xs)
  show ?case
  proof (cases m)
    case Nil
    then show ?thesis by simp
  next
    case (Cons k ks)
    with Cons.prems have kx: "k = x" and p: "prefix ks xs" and nc: "x \<noteq> c" "c \<notin> set ks"
      by auto
    from Cons.IH [OF nc(2) p] have "prefix ks (hd (split_char c xs))" .
    with kx nc Cons show ?thesis
      using split_char_not_Nil [of c xs] by (cases "split_char c xs") auto
  qed
qed

lemma sublist_in_some_line:
  "c \<notin> set m \<Longrightarrow> m \<noteq> [] \<Longrightarrow> sublist m s \<Longrightarrow> \<exists>line \<in> set (split_char c s). sublist m line"
proof (induction s)
  case Nil
  then show ?case by simp
next
  case (Cons x xs)
  obtain f fs where sp: "split_char c xs = f # fs"
    using split_char_not_Nil [of c xs] by (cases "split_char c xs") auto
  from Cons.prems(3) have "prefix m (x # xs) \<or> sublist m xs"
    by (simp add: sublist_Cons_right)
  then show ?case
  proof
    assume pre: "prefix m (x # xs)"
    from prefix_first_field [OF Cons.prems(1) pre]
    have "prefix m (hd (split_char c (x # xs)))" .
    then have "sublist m (hd (split_char c (x # xs)))" by (rule prefix_imp_sublist)
    moreover have "hd (split_char c (x # xs)) \<in> set (split_char c (x # xs))"
      using split_char_not_Nil [of c "x # xs"] by (intro hd_in_set)
    ultimately show ?thesis by blast
  next
    assume "sublist m xs"
    from Cons.IH [OF Cons.prems(1,2) this] obtain line where
      l: "line \<in> set (split_char c xs)" "sublist m line" by blast
    show ?thesis
    proof (cases "x = c")
      case True
      with l show ?thesis by auto
    next
      case False
      with l sp show ?thesis by (auto simp: sublist_Cons_right)
    qed
  qed
qed

lemma sublist_py_strip: "sublist (py_strip s) s"
proof -
  have "sublist (rev (dropWhile is_space (rev (dropWhile is_space s)))) (dropWhile is_space s)"
    by (simp add: sublist_rev_left)
  moreover have "sublist (dropWhile is_space s) s" by simp
  ultimately show ?thesis unfolding py_strip_def by (rule sublist_order.order_trans)
qed

lemma no_marker_in_stripped_lines:
  assumes "c \<notin> set m" "m \<noteq> []"
    and "\<forall>line \<in> set (split_char c s). \<not> py_in m line"
    and "line \<in> set (split_char c (py_strip s))"
  shows "\<not> py_in m line"
proof
  assume "py_in m line"
  then have "sublist m line" by (simp add: py_in_iff_sublist)
  moreover have "sublist line (py_strip s)" using assms(4) by (rule split_char_line_sublist)
  ultimately have "sublist m s"
    using sublist_py_strip [of s] by (meson sublist_order.order_trans)
  from sublist_in_some_line [OF assms(1,2) this] assms(3)
  show False by (auto simp: py_in_iff_sublist)
qed

lemma scan_processing_time_default_aux:
  "\<forall>line \<in> set ls. \<not> py_in ''total execution time:'' line \<Longrightarrow>
   foldl (\<lambda>processing_time line.
              if py_in ''total execution time:'' line
              then py_replace '' seconds'' '''' (py_strip (last (split_char CHR '':'' line)))
              else processing_time) acc ls = acc"
  by (induction ls arbitrary: acc) simp_all

lemma scan_processing_time_default:
  "\<forall>line \<in> set ls. \<not> py_in ''total execution time:'' line \<Longrightarrow>
   scan_processing_time ls = ''0.000''"
  unfolding scan_processing_time_def by (rule scan_processing_time_default_aux)

lemma scan_success_message_default:
  "\<forall>line \<in> set ls. \<not> py_in ''Success:'' line \<Longrightarrow> scan_success_message ls = ''''"
  by (induction ls) simp_all

lemma is_space_lower_char: "is_space (lower_char c) = is_space c"
  by (auto simp add: lower_char_def is_space_def split: option.splits if_splits)

lemma py_lower_append: "py_lower (a @ b) = py_lower a @ py_lower b"
  by (simp add: py_lower_def)

lemma py_lower_py_strip: "py_lower (py_strip s) = py_strip (py_lower s)"
proof -
  have dw: "\<And>xs. map lower_char (dropWhile is_space xs) = dropWhile is_space (map lower_char xs)"
    by (simp add: dropWhile_map comp_def is_space_lower_char)
  show ?thesis
    unfolding py_lower_def py_strip_def by (simp only: rev_map [symmetric] dw)
qed

lemma sublist_py_strip_iff:
  assumes "kw \<noteq> []" "\<not> is_space (hd kw)" "\<not> is_space (last kw)"
  shows "sublist kw (py_strip s) \<longleftrightarrow> sublist kw s"
proof
  assume "sublist kw (py_strip s)"
  then show "sublist kw s" using sublist_py_strip [of s] by (meson sublist_order.order_trans)
next
  assume "sublist kw s"
  then obtain p q where s: "s = p @ kw @ q" by (auto simp: sublist_def)
  obtain k ks where kw: "kw = k # ks" using assms(1) by (cases kw) auto
  have nk: "\<not> is_space k" using assms(2) kw by simp
  have d1: "dropWhile is_space s = dropWhile is_space p @ kw @ q"
    using nk by (simp add: s kw dropWhile_append3)
  obtain l ls where rkw: "rev kw = l # ls" using assms(1) by (cases "rev kw") auto
  have "l = last kw" using rkw assms(1) by (metis last_rev list.sel(1) rev_rev_ident hd_rev)
  then have nl: "\<not> is_space l" using assms(3) by simp
  have "rev (dropWhile is_space s) = rev q @ l # (ls @ rev (dropWhile is_space p))"
    by (simp add: d1 rkw)
  then have "dropWhile is_space (rev (dropWhile is_space s))
               = dropWhile is_space (rev q) @ l # (ls @ rev (dropWhile is_space p))"
    using nl by (simp add: dropWhile_append3)
  then have "py_strip s = dropWhile is_space p @ rev (l # ls) @ rev (dropWhile is_space (rev q))"
    by (simp add: py_strip_def)
  also have "rev (l # ls) = kw" using rkw by (metis rev_rev_ident)
  finally show "sublist kw (py_strip s)" by (auto simp: sublist_def)
qed

lemma keyword_in_lower_py_strip:
  assumes "kw = ''accessibility'' \<or> kw = ''not found''"
  shows "py_in kw (py_lower (py_strip s)) \<longleftrightarrow> py_in kw (py_lower s)"
proof -
  have "kw \<noteq> [] \<and> \<not> is_space (hd kw) \<and> \<not> is_space (last kw)"
    using assms by (auto simp: is_space_def)
  then show ?thesis
    by (simp add: py_lower_py_strip py_in_iff_sublist sublist_py_strip_iff)
qed

lemma keyword_in_error_msg:
  assumes "kw = ''accessibility'' \<or> kw = ''not found''"
  shows "py_in kw (py_lower (error_msg result)) \<longleftrightarrow> py_in kw (py_lower (stderr result))"
proof (cases "stderr result = []")
  case True
  then show ?thesis using assms by (auto simp: error_msg_def py_lower_def lower_char_def)
next
  case False
  then show ?thesis using assms keyword_in_lower_py_strip [of kw "stderr result"]
    by (simp add: error_msg_def)
qed

lemma keyword_in_failure_message:
  assumes "kw = ''accessibility'' \<or> kw = ''not found''"
    and "tool_name \<in> {''TraversalTool'', ''AppOpenerTool''}"
  shows "py_in kw (py_lower (tool_name @ '' failed: '' @ error_msg result))
           \<longleftrightarrow> py_in kw (py_lower (stderr result))"
proof -
  have "py_in kw (py_lower (tool_name @ '' failed: '' @ t)) \<longleftrightarrow> py_in kw (py_lower t)" for t
    using assms by (auto simp: py_lower_def lower_char_def)
  then show ?thesis
    using keyword_in_error_msg [OF assms(1)] by simp
qed

section \<open>Properties of the tool wrappers\<close>

text \<open>
  C8. After a successful tool call, when no line of the standard error holds the marker,
  the operation still succeeds and the scraped field has its default: \<open>0.000\<close> for
  the timing string of \<open>open_application\<close> (whose pid has been read from the
  standard output before the scraping starts), the empty string for the message of the
  output controller.
\<close>

theorem stderr_marker_missing_defaults:
  "(run_tool_async pf ''AppOpenerTool'' [identifier] True w = (Inr result, w') \<and>
    py_int (py_strip (stdout result)) = Some p \<and>
    (\<forall>line \<in> set (split_char CHR 0x0A (stderr result)).
        \<not> py_in ''total execution time:'' line) \<longrightarrow>
      open_application pf identifier w =
        (Inr \<lparr>pid = p, app_name = identifier, processing_time_seconds = ''0.000''\<rparr>, w')) \<and>
   (run_tool_async pf ''OutputControllerTool''
        ([action_value action] @ (case val of None \<Rightarrow> [] | Some v \<Rightarrow> [str_of_float pf v]))
        True w = (Inr result, w') \<and>
    (\<forall>line \<in> set (split_char CHR 0x0A (stderr result)). \<not> py_in ''Success:'' line) \<longrightarrow>
      run_output_controller_action pf action val w =
        (Inr \<lparr>value = (if py_strip (stdout result) \<noteq> []
                        then float_of_str pf (py_strip (stdout result)) else None),
              message = ''''\<rparr>, w'))"
proof (intro conjI impI)
  assume a: "run_tool_async pf ''AppOpenerTool'' [identifier] True w = (Inr result, w') \<and>
    py_int (py_strip (stdout result)) = Some p \<and>
    (\<forall>line \<in> set (split_char CHR 0x0A (stderr result)).
        \<not> py_in ''total execution time:'' line)"
  then have "\<forall>line \<in> set (split_char CHR 0x0A (py_strip (stderr result))).
               \<not> py_in ''total execution time:'' line"
    using no_marker_in_stripped_lines
            [of "CHR 0x0A" "''total execution time:''" "stderr result"]
    by simp
  then have "scan_processing_time (split_char CHR 0x0A (py_strip (stderr result))) = ''0.000''"
    by (rule scan_processing_time_default)
  with a show "open_application pf identifier w =
        (Inr \<lparr>pid = p, app_name = identifier, processing_time_seconds = ''0.000''\<rparr>, w')"
    by (simp add: open_application_def)
next
  assume a: "run_tool_async pf ''OutputControllerTool''
        ([action_value action] @ (case val of None \<Rightarrow> [] | Some v \<Rightarrow> [str_of_float pf v]))
        True w = (Inr result, w') \<and>
    (\<forall>line \<in> set (split_char CHR 0x0A (stderr result)). \<not> py_in ''Success:'' line)"
  then have "\<forall>line \<in> set (split_char CHR 0x0A (py_strip (stderr result))).
               \<not> py_in ''Success:'' line"
    using no_marker_in_stripped_lines [of "CHR 0x0A" "''Success:''" "stderr result"]
    by simp
  then have "scan_success_message (split_char CHR 0x0A (py_strip (stderr result))) = ''''"
    by (rule scan_success_message_default)
  with a show "run_output_controller_action pf action val w =
        (Inr \<lparr>value = (if py_strip (stdout result) \<noteq> []
                        then float_of_str pf (py_strip (stdout result)) else None),
              message = ''''\<rparr>, w')"
    by (simp add: run_output_controller_action_def Let_def)
qed

theorem stderr_marker_missing_defaults_witness:
  "open_application (scripted_platform tools_succeed) ''Calculator'' [] =
     (Inr \<lparr>pid = 4242, app_name = ''Calculator'', processing_time_seconds = ''0.000''\<rparr>,
      [[''/sdk/AppOpenerTool'', ''Calculator'']]) \<and>
   run_output_controller_action (scripted_platform tools_succeed) GET_VOLUME None [] =
     (Inr \<lparr>value = Some (PyFloat 1 (- 1)), message = ''''\<rparr>,
      [[''/sdk/OutputControllerTool'', ''get-volume'']])"
proof -
  let ?pf = "scripted_platform tools_succeed"
  let ?r1 = "\<lparr>returncode = 0, stdout = ''4242'', stderr = ''info: activating Calculator''\<rparr>"
  let ?r2 = "\<lparr>returncode = 0, stdout = ''0.5'', stderr = ''volume read''\<rparr>"
  have h1: "run_tool_async ?pf ''AppOpenerTool'' [''Calculator''] True [] =
              (Inr ?r1, [[''/sdk/AppOpenerTool'', ''Calculator'']])"
    by (simp add: run_tool_async_def run_tool_def scripted_platform_def tools_succeed_def
        exited_def path_join_def Let_def)
  have h2: "py_int (py_strip (stdout ?r1)) = Some 4242"
    by (simp add: py_int_def py_strip_def is_space_def is_digit_def digits_value_def
        digit_value_def Let_def)
  have h3: "\<forall>line \<in> set (split_char CHR 0x0A (stderr ?r1)).
              \<not> py_in ''total execution time:'' line"
    by simp
  have h4: "run_tool_async ?pf ''OutputControllerTool''
              ([action_value GET_VOLUME] @ (case None of None \<Rightarrow> [] | Some v \<Rightarrow> [str_of_float ?pf v]))
              True [] = (Inr ?r2, [[''/sdk/OutputControllerTool'', ''get-volume'']])"
    by (simp add: run_tool_async_def run_tool_def scripted_platform_def tools_succeed_def
        exited_def path_join_def Let_def)
  have h5: "\<forall>line \<in> set (split_char CHR 0x0A (stderr ?r2)). \<not> py_in ''Success:'' line"
    by simp
  have h6: "float_of_str ?pf (py_strip (stdout ?r2)) = Some (PyFloat 1 (- 1))"
    by (simp add: scripted_platform_def py_strip_def is_space_def)
  have h7: "py_strip (stdout ?r2) \<noteq> []"
    by (simp add: py_strip_def is_space_def)
  from stderr_marker_missing_defaults [where pf = ?pf and w = "[]" and result = ?r1
                and w' = "[[''/sdk/AppOpenerTool'', ''Calculator'']]" and p = 4242]
       h1 h2 h3
  have a: "open_application ?pf ''Calculator'' [] =
     (Inr \<lparr>pid = 4242, app_name = ''Calculator'', processing_time_seconds = ''0.000''\<rparr>,
      [[''/sdk/AppOpenerTool'', ''Calculator'']])" by blast
  from stderr_marker_missing_defaults [where pf = ?pf and action = GET_VOLUME and val = None and w = "[]" and result = ?r2
                and w' = "[[''/sdk/OutputControllerTool'', ''get-volume'']]"]
       h4 h5 h6 h7
  have b: "run_output_controller_action ?pf GET_VOLUME None [] =
     (Inr \<lparr>value = Some (PyFloat 1 (- 1)), message = ''''\<rparr>,
      [[''/sdk/OutputControllerTool'', ''get-volume'']])" by simp
  from a b show ?thesis by simp
qed

lemma run_tool_async_nonzero:
  assumes "exits_nonzero pf tool_name args w result w'"
  shows "run_tool_async pf tool_name args True w =
           (Inl (MacosUseSDKError (tool_name @ '' failed: '' @ error_msg result)), w')"
  using assms by (simp add: exits_nonzero_def run_tool_async_def run_tool_def Let_def)

text \<open>
  C6, as stated, fails. A failed \<open>AppOpenerTool\<close> whose standard error speaks of
  accessibility surfaces as the base \<open>MacosUseSDKError\<close>, not as
  \<open>AccessibilityError\<close>; a failed \<open>TraversalTool\<close> whose standard error holds both
  keywords surfaces as \<open>AccessibilityError\<close>, not as \<open>AppNotFoundError\<close>; a failed
  \<open>InputControllerTool\<close> whose standard error holds \<open>not found\<close> surfaces as
  \<open>InputSimulationError\<close>.
\<close>

theorem nonzero_exit_error_kinds_counterexample:
  "open_application (scripted_platform (always_exits 1 '''' ''Error: accessibility permission denied''))
      ''Calculator'' []
     = (Inl (MacosUseSDKError ''AppOpenerTool failed: Error: accessibility permission denied''),
        [[''/sdk/AppOpenerTool'', ''Calculator'']]) \<and>
   traverse_accessibility_tree
      (scripted_platform (always_exits 1 '''' ''accessibility: process not found'')) (Pid 4242) False []
     = (Inl (AccessibilityError ''TraversalTool failed: accessibility: process not found''),
        [[''/sdk/TraversalTool'', ''4242'']]) \<and>
   run_input_action (scripted_platform (always_exits 1 '''' ''window not found'')) ''click'' [''1'', ''2''] []
     = (Inl (InputSimulationError
               ''Input simulation failed: InputControllerTool failed: window not found''),
        [[''/sdk/InputControllerTool'', ''click'', ''1'', ''2'']])"
  by (simp add: open_application_def traverse_accessibility_tree_def run_input_action_def
      resolve_pid_def run_tool_async_def run_tool_def scripted_platform_def always_exits_def
      exited_def path_join_def error_msg_def py_strip_def is_space_def Let_def
      open_application_except_def traverse_except_def py_lower_def lower_char_def
      str_int_def str_nat.simps digit_char_def)

text \<open>
  C6, amended. For a tool invocation that exits with a non-zero code, with the keywords
  looked for in the lower-cased standard error: a traversal surfaces as
  \<open>AccessibilityError\<close> when \<open>accessibility\<close> occurs, otherwise as
  \<open>AppNotFoundError\<close> when \<open>not found\<close> occurs, otherwise as the base
  \<open>MacosUseSDKError\<close> with the tool name and the stripped standard error (or
  \<open>Unknown error\<close>); an application open surfaces as \<open>AppNotFoundError\<close> when
  \<open>not found\<close> occurs and as the base error otherwise; an input simulation always
  surfaces as \<open>InputSimulationError\<close> and an output control always as
  \<open>OutputControllerError\<close>, both wrapping the base message.
\<close>

theorem nonzero_exit_error_kinds:
  "(exits_nonzero pf ''TraversalTool''
      ((if only_visible then [''--visible-only''] else []) @ [str_int p]) w result w' \<longrightarrow>
    traverse_accessibility_tree pf (Pid p) only_visible w =
      (Inl (if py_in ''accessibility'' (py_lower (stderr result))
            then AccessibilityError (''TraversalTool failed: '' @ error_msg result)
            else if py_in ''not found'' (py_lower (stderr result))
            then AppNotFoundError (''No application found for identifier '' @ str_int p)
            else MacosUseSDKError (''TraversalTool failed: '' @ error_msg result)), w')) \<and>
   (exits_nonzero pf ''AppOpenerTool'' [identifier] w result w' \<longrightarrow>
    open_application pf identifier w =
      (Inl (if py_in ''not found'' (py_lower (stderr result))
            then AppNotFoundError (''Application not found: '' @ identifier)
            else MacosUseSDKError (''AppOpenerTool failed: '' @ error_msg result)), w')) \<and>
   (exits_nonzero pf ''InputControllerTool'' (action # args) w result w' \<longrightarrow>
    run_input_action pf action args w =
      (Inl (InputSimulationError
              (''Input simulation failed: InputControllerTool failed: '' @ error_msg result)), w')) \<and>
   (exits_nonzero pf ''OutputControllerTool''
      ([action_value oc_action] @ (case val of None \<Rightarrow> [] | Some v \<Rightarrow> [str_of_float pf v]))
      w result w' \<longrightarrow>
    run_output_controller_action pf oc_action val w =
      (Inl (OutputControllerError
              (''Output controller operation failed: OutputControllerTool failed: ''
               @ error_msg result)), w'))"
proof (intro conjI impI)
  assume "exits_nonzero pf ''TraversalTool''
      ((if only_visible then [''--visible-only''] else []) @ [str_int p]) w result w'"
  from run_tool_async_nonzero [OF this]
  show "traverse_accessibility_tree pf (Pid p) only_visible w =
      (Inl (if py_in ''accessibility'' (py_lower (stderr result))
            then AccessibilityError (''TraversalTool failed: '' @ error_msg result)
            else if py_in ''not found'' (py_lower (stderr result))
            then AppNotFoundError (''No application found for identifier '' @ str_int p)
            else MacosUseSDKError (''TraversalTool failed: '' @ error_msg result)), w')"
    using keyword_in_failure_message [of "''accessibility''" "''TraversalTool''" result]
          keyword_in_failure_message [of "''not found''" "''TraversalTool''" result]
    by (simp add: traverse_accessibility_tree_def resolve_pid_def traverse_except_def Let_def)
next
  assume "exits_nonzero pf ''AppOpenerTool'' [identifier] w result w'"
  from run_tool_async_nonzero [OF this]
  show "open_application pf identifier w =
      (Inl (if py_in ''not found'' (py_lower (stderr result))
            then AppNotFoundError (''Application not found: '' @ identifier)
            else MacosUseSDKError (''AppOpenerTool failed: '' @ error_msg result)), w')"
    using keyword_in_failure_message [of "''not found''" "''AppOpenerTool''" result]
    by (simp add: open_application_def open_application_except_def)
next
  assume "exits_nonzero pf ''InputControllerTool'' (action # args) w result w'"
  from run_tool_async_nonzero [OF this]
  show "run_input_action pf action args w =
      (Inl (InputSimulationError
              (''Input simulation failed: InputControllerTool failed: '' @ error_msg result)), w')"
    by (simp add: run_input_action_def)
next
  assume "exits_nonzero pf ''OutputControllerTool''
      ([action_value oc_action] @ (case val of None \<Rightarrow> [] | Some v \<Rightarrow> [str_of_float pf v]))
      w result w'"
  from run_tool_async_nonzero [OF this]
  show "run_output_controller_action pf oc_action val w =
      (Inl (OutputControllerError
              (''Output controller operation failed: OutputControllerTool failed: ''
               @ error_msg result)), w')"
    by (simp add: run_output_controller_action_def Let_def)
qed

theorem nonzero_exit_error_kinds_witness:
  "exits_nonzero (scripted_platform (always_exits 1 '''' ''Error: Not Found'')) ''TraversalTool''
     [''4242''] [] \<lparr>returncode = 1, stdout = '''', stderr = ''Error: Not Found''\<rparr>
     [[''/sdk/TraversalTool'', ''4242'']] \<and>
   traverse_accessibility_tree (scripted_platform (always_exits 1 '''' ''Error: Not Found''))
     (Pid 4242) False []
     = (Inl (AppNotFoundError ''No application found for identifier 4242''),
        [[''/sdk/TraversalTool'', ''4242'']]) \<and>
   open_application (scripted_platform (always_exits 1 '''' ''Error: Not Found'')) ''Calculator'' []
     = (Inl (AppNotFoundError ''Application not found: Calculator''),
        [[''/sdk/AppOpenerTool'', ''Calculator'']]) \<and>
   run_input_action (scripted_platform (always_exits 1 '''' ''Error: Not Found'')) ''click''
     [''1'', ''2''] []
     = (Inl (InputSimulationError
               ''Input simulation failed: InputControllerTool failed: Error: Not Found''),
        [[''/sdk/InputControllerTool'', ''click'', ''1'', ''2'']]) \<and>
   run_output_controller_action (scripted_platform (always_exits 1 '''' ''Error: Not Found''))
     GET_VOLUME None []
     = (Inl (OutputControllerError
               ''Output controller operation failed: OutputControllerTool failed: Error: Not Found''),
        [[''/sdk/OutputControllerTool'', ''get-volume'']])"
proof -
  let ?pf = "scripted_platform (always_exits 1 '''' ''Error: Not Found'')"
  let ?r = "\<lparr>returncode = 1, stdout = '''', stderr = ''Error: Not Found''\<rparr>"
  have ex: "exits_nonzero ?pf tool_name args [] ?r [(''/sdk/'' @ tool_name) # args]"
    if "tool_name \<noteq> []" "hd tool_name \<noteq> CHR ''/''" for tool_name args
    using that
    by (simp add: exits_nonzero_def scripted_platform_def always_exits_def exited_def
        path_join_def)
  have s: "str_int 4242 = ''4242''"
    by (simp add: str_int_def str_nat.simps digit_char_def)
  have m: "error_msg ?r = ''Error: Not Found''"
    by (simp add: error_msg_def py_strip_def is_space_def)
  have k1: "\<not> py_in ''accessibility'' (py_lower (stderr ?r))"
    by (simp add: py_lower_def lower_char_def)
  have k2: "py_in ''not found'' (py_lower (stderr ?r))"
    by (simp add: py_lower_def lower_char_def)
  have e1: "exits_nonzero ?pf ''TraversalTool''
              ((if False then [''--visible-only''] else []) @ [str_int 4242]) [] ?r
              [[''/sdk/TraversalTool'', ''4242'']]"
    using ex [of "''TraversalTool''" "[''4242'']"] by (simp add: s)
  have e2: "exits_nonzero ?pf ''AppOpenerTool'' [''Calculator''] [] ?r
              [[''/sdk/AppOpenerTool'', ''Calculator'']]"
    using ex [of "''AppOpenerTool''" "[''Calculator'']"] by simp
  have e3: "exits_nonzero ?pf ''InputControllerTool'' (''click'' # [''1'', ''2'']) [] ?r
              [[''/sdk/InputControllerTool'', ''click'', ''1'', ''2'']]"
    using ex [of "''InputControllerTool''" "[''click'', ''1'', ''2'']"] by simp
  have e4: "exits_nonzero ?pf ''OutputControllerTool''
              ([action_value GET_VOLUME] @
               (case None of None \<Rightarrow> [] | Some v \<Rightarrow> [str_of_float ?pf v]))
              [] ?r [[''/sdk/OutputControllerTool'', ''get-volume'']]"
    using ex [of "''OutputControllerTool''" "[''get-volume'']"] by simp
  from nonzero_exit_error_kinds [where pf = ?pf and only_visible = False and p = 4242 and w = "[]" and result = ?r
             and w' = "[[''/sdk/TraversalTool'', ''4242'']]"] e1 k1 k2
  have a: "traverse_accessibility_tree ?pf (Pid 4242) False []
     = (Inl (AppNotFoundError ''No application found for identifier 4242''),
        [[''/sdk/TraversalTool'', ''4242'']])"
    by (simp add: s)
  from nonzero_exit_error_kinds [where pf = ?pf and w = "[]" and result = ?r
             and w' = "[[''/sdk/AppOpenerTool'', ''Calculator'']]"] e2 k2
  have b: "open_application ?pf ''Calculator'' []
     = (Inl (AppNotFoundError ''Application not found: Calculator''),
        [[''/sdk/AppOpenerTool'', ''Calculator'']])"
    by simp
  from nonzero_exit_error_kinds [where pf = ?pf and w = "[]" and result = ?r and action = "''click''"
             and args = "[''1'', ''2'']"
             and w' = "[[''/sdk/InputControllerTool'', ''click'', ''1'', ''2'']]"] e3 m
  have c: "run_input_action ?pf ''click'' [''1'', ''2''] []
     = (Inl (InputSimulationError
               ''Input simulation failed: InputControllerTool failed: Error: Not Found''),
        [[''/sdk/InputControllerTool'', ''click'', ''1'', ''2'']])"
    by simp
  from nonzero_exit_error_kinds [where pf = ?pf and w = "[]" and result = ?r and oc_action = GET_VOLUME
             and val = None and w' = "[[''/sdk/OutputControllerTool'', ''get-volume'']]"] e4 m
  have d: "run_output_controller_action ?pf GET_VOLUME None []
     = (Inl (OutputControllerError
               ''Output controller operation failed: OutputControllerTool failed: Error: Not Found''),
        [[''/sdk/OutputControllerTool'', ''get-volume'']])"
    by simp
  from e1 a b c d show ?thesis by (simp add: s)
qed

section \<open>Properties of \<open>perform_action\<close>\<close>

text \<open>
  A failed open ends \<open>perform_action\<close> at once: the result holds the error in
  \<open>primary_action_error\<close> and nothing else, and the machine is in the state the open
  left it in, so no traversal was run.
\<close>

lemma perform_action_open_failure:
  assumes "open_application pf identifier w = (Inl e, w1)"
  shows "perform_action pf (Open identifier) options w =
           (Inr (ActionResult_init\<lparr>primary_action_error := Some (str_exception e)\<rparr>), w1)"
  using assms by (simp add: perform_action_def handle_open_def Let_def)

text \<open>
  A failed before-traversal, after an open that gave a non-zero pid, is recorded in
  \<open>traversal_before_error\<close>, and the after-traversal is still run, on the state
  after the delay: its outcome is in the result.
\<close>

lemma perform_action_before_traversal_failure:
  assumes "open_application pf identifier w = (Inr opened, w1)"
    and "pid opened \<noteq> 0"
    and "traverse_before (perform_action_options options)"
    and "traverse_after (perform_action_options options)"
    and "traverse_accessibility_tree pf (Pid (pid opened))
           (only_visible_elements (perform_action_options options)) w1 = (Inl e, w2)"
    and "traverse_accessibility_tree pf (Pid (pid opened))
           (only_visible_elements (perform_action_options options))
           (delay_after pf (perform_action_options options) w2) = (after, w3)"
  shows "perform_action pf (Open identifier) options w =
           (Inr (ActionResult_init
                  \<lparr>open_result := Some opened, traversal_pid := Some (pid opened),
                   traversal_before_error := Some (str_exception e),
                   traversal_after := (case after of Inr data \<Rightarrow> Some data | Inl e' \<Rightarrow> None),
                   traversal_after_error :=
                     (case after of Inr data \<Rightarrow> None | Inl e' \<Rightarrow> Some (str_exception e'))\<rparr>),
            w3)"
  using assms
  by (auto simp add: perform_action_def handle_open_def handle_traversal_before_def
      handle_input_def handle_traversal_after_def generate_diff_if_requested_def
      ActionResult_init_def Let_def split: sum.splits bool.splits option.splits)

text \<open>
  Both lemmas at work on the sample platform: after a failed open only the opener has
  been run; after a failed first traversal the second one has been run and its snapshot
  is in the result.
\<close>

lemma perform_action_open_stage_examples:
  "perform_action (scripted_platform (always_exits 1 '''' ''boom'')) (Open ''Calculator'')
     (Some (ActionOptions_init\<lparr>traverse_before := True, traverse_after := True\<rparr>)) []
     = (Inr (ActionResult_init\<lparr>primary_action_error := Some ''AppOpenerTool failed: boom''\<rparr>),
        [[''/sdk/AppOpenerTool'', ''Calculator'']]) \<and>
   perform_action (scripted_platform first_traversal_fails) (Open ''Calculator'')
     (Some (ActionOptions_init\<lparr>traverse_before := True, traverse_after := True\<rparr>)) []
     = (Inr (ActionResult_init
              \<lparr>open_result := Some \<lparr>pid = 4242, app_name = ''Calculator'',
                                     processing_time_seconds = ''0.000''\<rparr>,
               traversal_pid := Some 4242,
               traversal_before_error :=
                 Some ''TraversalTool failed: AXError: cannot complete'',
               traversal_after :=
                 Some \<lparr>ResponseData.app_name = JStr '''', elements = [],
                       stats = Statistics_init, processing_time_seconds = JStr ''0.000'',
                       is_browser = JBool False, browser_data = None\<rparr>\<rparr>),
        [[''/sdk/AppOpenerTool'', ''Calculator''], [''/sdk/TraversalTool'', ''4242''],
         [''/sdk/TraversalTool'', ''4242'']])"
proof -
  let ?opts = "ActionOptions_init\<lparr>traverse_before := True, traverse_after := True\<rparr>"
  let ?pa = "scripted_platform (always_exits 1 '''' ''boom'')"
  let ?pb = "scripted_platform first_traversal_fails"
  let ?opened = "\<lparr>pid = 4242, app_name = ''Calculator'', processing_time_seconds = ''0.000''\<rparr>"
  let ?snap = "\<lparr>ResponseData.app_name = JStr '''', elements = [],
                 stats = Statistics_init, processing_time_seconds = JStr ''0.000'',
                 is_browser = JBool False, browser_data = None\<rparr>"
  let ?w1 = "[[''/sdk/AppOpenerTool'', ''Calculator'']]"
  let ?w2 = "[[''/sdk/AppOpenerTool'', ''Calculator''], [''/sdk/TraversalTool'', ''4242'']]"
  let ?w3 = "[[''/sdk/AppOpenerTool'', ''Calculator''], [''/sdk/TraversalTool'', ''4242''],
              [''/sdk/TraversalTool'', ''4242'']]"
  have o: "perform_action_options (Some ?opts) = ?opts"
    by (simp add: perform_action_options_def validated_def ActionOptions_init_def)
  have f: "traverse_before ?opts" "traverse_after ?opts" "\<not> only_visible_elements ?opts"
    by (simp_all add: ActionOptions_init_def)
  have s: "str_int 4242 = ''4242''"
    by (simp add: str_int_def str_nat.simps digit_char_def)
  have dlb: "delay_after ?pb ?opts w = w" for w
    by (simp add: delay_after_def scripted_platform_def)
  have a1: "open_application ?pa ''Calculator'' []
              = (Inl (MacosUseSDKError ''AppOpenerTool failed: boom''), ?w1)"
    by (simp add: open_application_def open_application_except_def run_tool_async_def
        run_tool_def scripted_platform_def always_exits_def exited_def path_join_def
        error_msg_def py_strip_def is_space_def py_lower_def lower_char_def Let_def)
  have b1: "open_application ?pb ''Calculator'' [] = (Inr ?opened, ?w1)"
    by (simp add: open_application_def run_tool_async_def run_tool_def scripted_platform_def
        first_traversal_fails_def exited_def path_join_def py_int_def py_strip_def
        is_space_def is_digit_def digits_value_def digit_value_def Let_def
        scan_processing_time_def)
  have b2: "traverse_accessibility_tree ?pb (Pid 4242) False ?w1
              = (Inl (MacosUseSDKError ''TraversalTool failed: AXError: cannot complete''), ?w2)"
    by (simp add: traverse_accessibility_tree_def resolve_pid_def traverse_except_def
        run_tool_async_def run_tool_def scripted_platform_def first_traversal_fails_def
        exited_def path_join_def error_msg_def py_strip_def is_space_def py_lower_def
        lower_char_def Let_def s)
  have b3: "traverse_accessibility_tree ?pb (Pid 4242) False ?w2 = (Inr ?snap, ?w3)"
    by (simp add: traverse_accessibility_tree_def resolve_pid_def parse_json_response_def
        run_tool_async_def run_tool_def scripted_platform_def first_traversal_fails_def
        exited_def path_join_def Let_def s and_then_def parse_response_data_def
        parse_statistics_default parse_browser_data_falsy dict_get_def)
  from perform_action_open_failure [OF a1, of "Some ?opts"]
  have A: "perform_action ?pa (Open ''Calculator'') (Some ?opts) []
     = (Inr (ActionResult_init\<lparr>primary_action_error := Some ''AppOpenerTool failed: boom''\<rparr>),
        ?w1)"
    by simp
  from perform_action_before_traversal_failure
         [where pf = ?pb and w = "[]" and options = "Some ?opts"
             and opened = ?opened
             and e = "MacosUseSDKError ''TraversalTool failed: AXError: cannot complete''"
             and ?w1.0 = ?w1 and ?w2.0 = ?w2 and after = "Inr ?snap" and ?w3.0 = ?w3]
       b1 b2 b3 f
  have B: "perform_action ?pb (Open ''Calculator'') (Some ?opts) []
     = (Inr (ActionResult_init
              \<lparr>open_result := Some ?opened,
               traversal_pid := Some 4242,
               traversal_before_error :=
                 Some ''TraversalTool failed: AXError: cannot complete'',
               traversal_after := Some ?snap\<rparr>),
        ?w3)"
    by (simp add: o dlb ActionResult_init_def)
  from A B show ?thesis by simp
qed



end
